theory Spec2Isabelle
  imports Main
begin

section \<open>Values, exceptions and registry entries\<close>

text \<open>
  Opaque JavaScript values (tool arguments, handler results) are kept as a small JSON
  tree. Exceptions are the \<open>Error\<close> objects the code throws or tests with
  \<open>instanceof\<close>; every one carries its \<open>message\<close>.
\<close>

datatype json =
    JNull
  | JBool bool
  | JNum int
  | JStr string
  | JArr "json list"
  | JObj "(string \<times> json) list"

datatype exn =
    Error (message: string)
  | TypeError (message: string)
  | ResourceError (message: string)
  | ResourceNotFoundError (message: string)
  | DuplicateResourceError (message: string)
  | DuplicateNameError (message: string)
  | ToolNotFoundError (message: string)
  | MissingArgumentError (message: string)
  | ToolExecutionError (message: string)
  | MethodNotFound (message: string)

text \<open>\<open>e instanceof ResourceNotFoundError\<close>.\<close>

fun instanceof_ResourceNotFoundError :: "exn \<Rightarrow> bool" where
  "instanceof_ResourceNotFoundError (ResourceNotFoundError m) = True"
| "instanceof_ResourceNotFoundError e = False"

text \<open>
  The configuration objects of \<open>../types\<close>. The handler \<open>fn\<close> is an opaque
  function value of type \<open>'f\<close>; the metadata part of each entry is a record of its own,
  which the entry extends by \<open>fn\<close>.
\<close>

record inputSpec =
  in_name :: string
  in_type :: string
  in_description :: string
  required :: bool

record toolInfo =
  tool_name :: string
  tool_description :: string
  inputs :: "inputSpec list"

record 'f toolConfig = toolInfo +
  tool_fn :: 'f

record promptInfo =
  prompt_name :: string
  prompt_description :: string
  prompt_args :: "inputSpec list"

record 'f promptConfig = promptInfo +
  prompt_fn :: 'f

record root =
  root_uri :: string
  root_name :: string

record resourceInfo =
  res_uri :: string
  res_name :: string
  res_description :: string
  res_mimeType :: string

record 'f resourceConfig = resourceInfo +
  res_fn :: 'f

record templateInfo =
  uriTemplate :: string
  tpl_name :: string
  tpl_description :: string
  tpl_mimeType :: string

record 'f resourceTemplateConfig = templateInfo +
  tpl_fn :: 'f

section \<open>The managers\<close>

text \<open>
  \<open>ResourceManager\<close>, \<open>ToolManager\<close>, \<open>PromptManager\<close> and \<open>RootsManager\<close> are
  imported by \<open>EasyMCP.ts\<close>; their state is the ordered store of the entries registered
  so far. \<open>ResourceManager\<close> owns two stores.
\<close>

record 'f resourceManager =
  resources :: "'f resourceConfig list"
  templates :: "'f resourceTemplateConfig list"

type_synonym 'f toolManager = "'f toolConfig list"
type_synonym 'f promptManager = "'f promptConfig list"
type_synonym rootsManager = "root list"

text \<open>
  Modelled from the spec: the \<open>list\<close> operations of the managers (their classes are
  imported, not defined, by \<open>EasyMCP.ts\<close>). Each returns a read-only snapshot, metadata
  only and no handlers, one item per registered entry in registration order.
\<close>

definition listResources :: "'f resourceManager \<Rightarrow> resourceInfo list" where
  "listResources rm = map resourceInfo.truncate (resources rm)"

definition listTemplates :: "'f resourceManager \<Rightarrow> templateInfo list" where
  "listTemplates rm = map templateInfo.truncate (templates rm)"

definition ToolManager_list :: "'f toolManager \<Rightarrow> toolInfo list" where
  "ToolManager_list tm = map toolInfo.truncate tm"

definition PromptManager_list :: "'f promptManager \<Rightarrow> promptInfo list" where
  "PromptManager_list pm = map promptInfo.truncate pm"

definition RootsManager_list :: "rootsManager \<Rightarrow> root list" where
  "RootsManager_list rs = rs"

text \<open>
  Modelled from the spec: the \<open>add\<close> operations of the managers. \<open>addResource\<close> fails
  with \<open>DuplicateResourceError\<close> if the URI is already present; \<open>addTemplate\<close> appends
  with no uniqueness check; \<open>RootsManager.add\<close> appends unconditionally. Tool and prompt
  names are unique within their registry, and the spec leaves open whether a duplicate
  registration replaces the prior entry or is rejected: the policy is a parameter. The
  spec names no error for the rejection; it is \<open>DuplicateNameError\<close> here.
\<close>

datatype dup_policy = Replace | Reject

definition addResource :: "'f resourceConfig \<Rightarrow> 'f resourceManager \<Rightarrow> exn + 'f resourceManager" where
  "addResource cfg rm =
     (if res_uri cfg \<in> set (map res_uri (resources rm))
      then Inl (DuplicateResourceError (res_uri cfg))
      else Inr (rm\<lparr>resources := resources rm @ [cfg]\<rparr>))"

definition addTemplate :: "'f resourceTemplateConfig \<Rightarrow> 'f resourceManager \<Rightarrow> exn + 'f resourceManager" where
  "addTemplate cfg rm = Inr (rm\<lparr>templates := templates rm @ [cfg]\<rparr>)"

definition named_add :: "dup_policy \<Rightarrow> ('a \<Rightarrow> string) \<Rightarrow> 'a \<Rightarrow> 'a list \<Rightarrow> exn + 'a list" where
  "named_add pol key cfg xs =
     (if key cfg \<in> set (map key xs)
      then (case pol of
              Reject \<Rightarrow> Inl (DuplicateNameError (key cfg))
            | Replace \<Rightarrow> Inr (map (\<lambda>x. if key x = key cfg then cfg else x) xs))
      else Inr (xs @ [cfg]))"

definition ToolManager_add :: "dup_policy \<Rightarrow> 'f toolConfig \<Rightarrow> 'f toolManager \<Rightarrow> exn + 'f toolManager" where
  "ToolManager_add pol cfg tm = named_add pol tool_name cfg tm"

definition PromptManager_add :: "dup_policy \<Rightarrow> 'f promptConfig \<Rightarrow> 'f promptManager \<Rightarrow> exn + 'f promptManager" where
  "PromptManager_add pol cfg pm = named_add pol prompt_name cfg pm"

definition RootsManager_add :: "root \<Rightarrow> rootsManager \<Rightarrow> exn + rootsManager" where
  "RootsManager_add r rs = Inr (rs @ [r])"

section \<open>The SDK server object and BaseMCP\<close>

text \<open>
  \<open>ServerCapabilities\<close>: every field is optional; \<open>resources\<close>, \<open>tools\<close>, \<open>prompts\<close>
  and \<open>roots\<close> hold the empty object when set, \<open>logging\<close> holds its \<open>levels\<close>.
\<close>

record serverCapabilities =
  cap_resources :: "unit option"
  cap_logging :: "string list option"
  cap_tools :: "unit option"
  cap_prompts :: "unit option"
  cap_roots :: "unit option"

text \<open>The request schemas a handler can be set for.\<close>

datatype requestSchema =
    ListResources
  | ListResourceTemplates
  | ReadResource
  | ListTools
  | CallTool
  | ListPrompts
  | GetPrompt
  | ListRoots

text \<open>
  The SDK's \<open>Server\<close>, as far as \<open>EasyMCP.ts\<close> uses it: the name and version and the
  capabilities it was constructed with, the request schemas a handler has been set for,
  whether \<open>connect\<close> has completed, and the logging messages sent (level and text).
\<close>

record server =
  srv_name :: string
  srv_version :: string
  capabilities :: serverCapabilities
  handlers :: "requestSchema list"
  connected :: bool
  sent :: "(string \<times> string) list"

record serverOptions =
  version :: string
  description :: "string option"

record 'f mcp =
  mcp_name :: string
  opts :: serverOptions
  resourceManager :: "'f resourceManager"
  toolManager :: "'f toolManager"
  promptManager :: "'f promptManager"
  rootsManager :: rootsManager
  server :: "server option"

text \<open>
  The calls into the SDK are parameters: each either succeeds (\<open>None\<close>) or throws.
\<close>

record sdk =
  newStdioServerTransport :: "exn option"
  newServer :: "string \<Rightarrow> string \<Rightarrow> serverCapabilities \<Rightarrow> exn option"
  setRequestHandler :: "server \<Rightarrow> requestSchema \<Rightarrow> exn option"
  connect :: "server \<Rightarrow> exn option"

text \<open>The constructor of \<open>BaseMCP\<close>: every manager is created empty, no server yet.\<close>

definition BaseMCP :: "string \<Rightarrow> serverOptions \<Rightarrow> 'f mcp" where
  "BaseMCP n os =
     \<lparr>mcp_name = n, opts = os,
      resourceManager = \<lparr>resources = [], templates = []\<rparr>,
      toolManager = [], promptManager = [], rootsManager = [],
      server = None\<rparr>"

record listedCapabilities =
  lc_resources :: "resourceInfo list"
  lc_resourceTemplates :: "templateInfo list"
  lc_tools :: "toolInfo list"
  lc_prompts :: "promptInfo list"
  lc_roots :: "root list"

definition listCapabilities :: "'f mcp \<Rightarrow> listedCapabilities" where
  "listCapabilities st =
     \<lparr>lc_resources = listResources (resourceManager st),
      lc_resourceTemplates = listTemplates (resourceManager st),
      lc_tools = ToolManager_list (toolManager st),
      lc_prompts = PromptManager_list (promptManager st),
      lc_roots = RootsManager_list (rootsManager st)\<rparr>"

text \<open>
  \<open>registerCapabilities\<close>: the assignments in the order of the source. A JavaScript
  length is truthy when it is not zero. \<open>LOG_LEVELS\<close> is a constant of
  \<open>LogFormatter\<close>, taken as a parameter.
\<close>

definition registerCapabilities :: "string list \<Rightarrow> 'f mcp \<Rightarrow> serverCapabilities" where
  "registerCapabilities LOG_LEVELS st =
     (let c0 = \<lparr>cap_resources = None, cap_logging = None, cap_tools = None,
                cap_prompts = None, cap_roots = None\<rparr>;
          c1 = (if length (listResources (resourceManager st)) \<noteq> 0
                   \<or> length (listTemplates (resourceManager st)) \<noteq> 0
                then c0\<lparr>cap_resources := Some ()\<rparr> else c0);
          c2 = c1\<lparr>cap_logging := Some LOG_LEVELS\<rparr>;
          c3 = (if length (ToolManager_list (toolManager st)) \<noteq> 0
                then c2\<lparr>cap_tools := Some ()\<rparr> else c2);
          c4 = (if length (PromptManager_list (promptManager st)) \<noteq> 0
                then c3\<lparr>cap_prompts := Some ()\<rparr> else c3);
          c5 = (if length (RootsManager_list (rootsManager st)) \<noteq> 0
                then c4\<lparr>cap_roots := Some ()\<rparr> else c4)
      in c5)"

text \<open>The registration methods of \<open>BaseMCP\<close> delegate to the managers.\<close>

definition tool :: "dup_policy \<Rightarrow> 'f toolConfig \<Rightarrow> 'f mcp \<Rightarrow> exn + 'f mcp" where
  "tool pol config st =
     (case ToolManager_add pol config (toolManager st) of
        Inl e \<Rightarrow> Inl e
      | Inr tm \<Rightarrow> Inr (st\<lparr>toolManager := tm\<rparr>))"

definition resource :: "'f resourceConfig \<Rightarrow> 'f mcp \<Rightarrow> exn + 'f mcp" where
  "resource config st =
     (case addResource
             \<lparr>res_uri = res_uri config, res_name = res_name config,
              res_description = res_description config,
              res_mimeType = res_mimeType config, res_fn = res_fn config\<rparr>
             (resourceManager st) of
        Inl e \<Rightarrow> Inl e
      | Inr rm \<Rightarrow> Inr (st\<lparr>resourceManager := rm\<rparr>))"

definition template :: "'f resourceTemplateConfig \<Rightarrow> 'f mcp \<Rightarrow> exn + 'f mcp" where
  "template config st =
     (case addTemplate
             \<lparr>uriTemplate = uriTemplate config, tpl_name = tpl_name config,
              tpl_description = tpl_description config,
              tpl_mimeType = tpl_mimeType config, tpl_fn = tpl_fn config\<rparr>
             (resourceManager st) of
        Inl e \<Rightarrow> Inl e
      | Inr rm \<Rightarrow> Inr (st\<lparr>resourceManager := rm\<rparr>))"

definition prompt :: "dup_policy \<Rightarrow> 'f promptConfig \<Rightarrow> 'f mcp \<Rightarrow> exn + 'f mcp" where
  "prompt pol config st =
     (case PromptManager_add pol config (promptManager st) of
        Inl e \<Rightarrow> Inl e
      | Inr pm \<Rightarrow> Inr (st\<lparr>promptManager := pm\<rparr>))"

definition root :: "root \<Rightarrow> 'f mcp \<Rightarrow> exn + 'f mcp" where
  "root config st =
     (case RootsManager_add config (rootsManager st) of
        Inl e \<Rightarrow> Inl e
      | Inr rs \<Rightarrow> Inr (st\<lparr>rootsManager := rs\<rparr>))"

section \<open>Binding the request handlers and serving\<close>

definition not_initialized :: exn where
  "not_initialized = Error ''Server not initialized. Call serve() first.''"

text \<open>
  \<open>this.server.setRequestHandler(schema, handler)\<close>: the SDK call may throw; otherwise
  the schema has a handler from now on. The handler set for a schema is always the
  closure written at that place of \<open>registerCoreHandlers\<close>, so the schema identifies it.
\<close>

definition bindHandler :: "sdk \<Rightarrow> server \<Rightarrow> requestSchema \<Rightarrow> exn + server" where
  "bindHandler k srv m =
     (case setRequestHandler k srv m of
        Some e \<Rightarrow> Inl e
      | None \<Rightarrow> Inr (srv\<lparr>handlers := handlers srv @ [m]\<rparr>))"

fun bindAll :: "sdk \<Rightarrow> server \<Rightarrow> requestSchema list \<Rightarrow> exn + server" where
  "bindAll k srv [] = Inr srv"
| "bindAll k srv (m # ms) =
     (case bindHandler k srv m of
        Inl e \<Rightarrow> Inl e
      | Inr srv' \<Rightarrow> bindAll k srv' ms)"

text \<open>
  The schemas \<open>registerCoreHandlers\<close> sets a handler for, in the order of its four
  \<open>if\<close> blocks. The first block tests the static resources only.
\<close>

definition schemasToBind :: "listedCapabilities \<Rightarrow> requestSchema list" where
  "schemasToBind listed =
     (if length (lc_resources listed) \<noteq> 0
      then [ListResources, ListResourceTemplates, ReadResource] else [])
     @ (if length (lc_tools listed) \<noteq> 0 then [ListTools, CallTool] else [])
     @ (if length (lc_prompts listed) \<noteq> 0 then [ListPrompts, GetPrompt] else [])
     @ (if length (lc_roots listed) \<noteq> 0 then [ListRoots] else [])"

definition registerCoreHandlers :: "sdk \<Rightarrow> 'f mcp \<Rightarrow> exn + 'f mcp" where
  "registerCoreHandlers k st =
     (case server st of
        None \<Rightarrow> Inl not_initialized
      | Some srv \<Rightarrow>
          (let listed = listCapabilities st in
           case bindAll k srv (schemasToBind listed) of
             Inl e \<Rightarrow> Inl e
           | Inr srv' \<Rightarrow> Inr (st\<lparr>server := Some srv'\<rparr>)))"

text \<open>
  \<open>serve\<close> ends in one of two ways: the session is served, or the \<open>catch\<close> block has
  written the error to the console and called \<open>process.exit(1)\<close>.
\<close>

datatype 'f process =
    Serving "'f mcp"
  | Exited (status: int) (console: "(string \<times> exn) list")

definition fatal :: "exn \<Rightarrow> 'f process" where
  "fatal e = Exited 1 [(''Error starting server'', e)]"

definition serve :: "sdk \<Rightarrow> string list \<Rightarrow> 'f mcp \<Rightarrow> 'f process" where
  "serve k LOG_LEVELS st =
     (case newStdioServerTransport k of
        Some e \<Rightarrow> fatal e
      | None \<Rightarrow>
          (let caps = registerCapabilities LOG_LEVELS st in
           case newServer k (mcp_name st) (version (opts st)) caps of
             Some e \<Rightarrow> fatal e
           | None \<Rightarrow>
               (let srv = \<lparr>srv_name = mcp_name st, srv_version = version (opts st),
                           capabilities = caps, handlers = [], connected = False,
                           sent = []\<rparr>
                in case registerCoreHandlers k (st\<lparr>server := Some srv\<rparr>) of
                     Inl e \<Rightarrow> fatal e
                   | Inr st' \<Rightarrow>
                       (case server st' of
                          None \<Rightarrow> fatal (TypeError ''Cannot read properties of null'')
                        | Some srv' \<Rightarrow>
                            (case connect k srv' of
                               Some e \<Rightarrow> fatal e
                             | None \<Rightarrow>
                                 Serving (st'\<lparr>server := Some (srv'\<lparr>connected := True\<rparr>)\<rparr>))))))"

section \<open>Requests and their handlers\<close>

record meta =
  progressToken :: "string option"

datatype request =
    ListResourcesRequest
  | ListResourceTemplatesRequest
  | ReadResourceRequest string
  | ListToolsRequest
  | CallToolRequest string "json option" "meta option"
  | ListPromptsRequest
  | GetPromptRequest string "json option"
  | ListRootsRequest

fun schema_of :: "request \<Rightarrow> requestSchema" where
  "schema_of ListResourcesRequest = ListResources"
| "schema_of ListResourceTemplatesRequest = ListResourceTemplates"
| "schema_of (ReadResourceRequest uri) = ReadResource"
| "schema_of ListToolsRequest = ListTools"
| "schema_of (CallToolRequest n a m) = CallTool"
| "schema_of ListPromptsRequest = ListPrompts"
| "schema_of (GetPromptRequest n a) = GetPrompt"
| "schema_of ListRootsRequest = ListRoots"

record resourceContents =
  rc_uri :: string
  rc_mimeType :: string
  rc_text :: string

record readResourceResult =
  contents :: "resourceContents list"

record textContent =
  tc_type :: string
  tc_text :: string

record callToolResult =
  content :: "textContent list"

record promptMessage =
  role :: string
  pm_content :: textContent

record getPromptResult =
  messages :: "promptMessage list"

datatype response =
    ListResourcesResult "resourceInfo list"
  | ListResourceTemplatesResult "templateInfo list"
  | ReadResourceResult readResourceResult
  | ListToolsResult "toolInfo list"
  | CallToolResult callToolResult
  | ListPromptsResult "promptInfo list"
  | GetPromptResult getPromptResult
  | ListRootsResult "root list"

text \<open>\<open>new Context(this.server, this.resourceManager, meta)\<close>.\<close>

record 'f callContext =
  ctx_server :: server
  ctx_resourceManager :: "'f resourceManager"
  ctx_meta :: "meta option"

text \<open>
  The lookup and invocation operations of the managers, \<open>ResourceManager.get\<close>,
  \<open>ToolManager.call\<close> and \<open>PromptManager.call\<close>, are parameters of the handlers:
  each returns its result or throws.
\<close>

record 'f collaborators =
  rm_get :: "'f resourceManager \<Rightarrow> string \<Rightarrow> exn + readResourceResult"
  tm_call :: "'f toolManager \<Rightarrow> string \<Rightarrow> json option \<Rightarrow> 'f callContext \<Rightarrow> exn + string"
  pm_call :: "'f promptManager \<Rightarrow> string \<Rightarrow> json option \<Rightarrow> exn + string"

definition createContext :: "'f mcp \<Rightarrow> meta option \<Rightarrow> exn + 'f callContext" where
  "createContext st m =
     (case server st of
        None \<Rightarrow> Inl not_initialized
      | Some srv \<Rightarrow>
          Inr \<lparr>ctx_server = srv, ctx_resourceManager = resourceManager st, ctx_meta = m\<rparr>)"

text \<open>The handler set for \<open>ReadResourceRequestSchema\<close>.\<close>

definition readResourceHandler :: "'f collaborators \<Rightarrow> 'f mcp \<Rightarrow> string \<Rightarrow> exn + readResourceResult" where
  "readResourceHandler c st uri =
     (case rm_get c (resourceManager st) uri of
        Inr resourceResult \<Rightarrow> Inr resourceResult
      | Inl e \<Rightarrow>
          (if instanceof_ResourceNotFoundError e
           then Inr \<lparr>contents =
                  [\<lparr>rc_uri = uri, rc_mimeType = ''text/plain'',
                    rc_text = ''Resource not found''\<rparr>]\<rparr>
           else Inl (ResourceError (message e))))"

text \<open>The handler set for \<open>CallToolRequestSchema\<close>.\<close>

definition callToolHandler ::
  "'f collaborators \<Rightarrow> 'f mcp \<Rightarrow> string \<Rightarrow> json option \<Rightarrow> meta option \<Rightarrow> exn + callToolResult" where
  "callToolHandler c st n args m =
     (case createContext st m of
        Inl e \<Rightarrow> Inl e
      | Inr ctx \<Rightarrow>
          (case tm_call c (toolManager st) n args ctx of
             Inl e \<Rightarrow> Inl e
           | Inr result \<Rightarrow> Inr \<lparr>content = [\<lparr>tc_type = ''text'', tc_text = result\<rparr>]\<rparr>))"

text \<open>The handler set for \<open>GetPromptRequestSchema\<close>.\<close>

definition getPromptHandler ::
  "'f collaborators \<Rightarrow> 'f mcp \<Rightarrow> string \<Rightarrow> json option \<Rightarrow> exn + getPromptResult" where
  "getPromptHandler c st n args =
     (case pm_call c (promptManager st) n args of
        Inl e \<Rightarrow> Inl e
      | Inr result \<Rightarrow>
          Inr \<lparr>messages =
                [\<lparr>role = ''user'',
                  pm_content = \<lparr>tc_type = ''text'', tc_text = result\<rparr>\<rparr>]\<rparr>)"

text \<open>
  What the handler set for a request's schema answers. The handlers read the managers
  when the request arrives.
\<close>

fun runHandler :: "'f collaborators \<Rightarrow> 'f mcp \<Rightarrow> request \<Rightarrow> exn + response" where
  "runHandler c st ListResourcesRequest =
     Inr (ListResourcesResult (listResources (resourceManager st)))"
| "runHandler c st ListResourceTemplatesRequest =
     Inr (ListResourceTemplatesResult (listTemplates (resourceManager st)))"
| "runHandler c st (ReadResourceRequest uri) =
     map_sum id ReadResourceResult (readResourceHandler c st uri)"
| "runHandler c st ListToolsRequest =
     Inr (ListToolsResult (ToolManager_list (toolManager st)))"
| "runHandler c st (CallToolRequest n args m) =
     map_sum id CallToolResult (callToolHandler c st n args m)"
| "runHandler c st ListPromptsRequest =
     Inr (ListPromptsResult (PromptManager_list (promptManager st)))"
| "runHandler c st (GetPromptRequest n args) =
     map_sum id GetPromptResult (getPromptHandler c st n args)"
| "runHandler c st ListRootsRequest =
     Inr (ListRootsResult (RootsManager_list (rootsManager st)))"

text \<open>
  Modelled from the spec: what the SDK's \<open>Server\<close> does with an inbound request. A
  request whose schema has a handler is answered by that handler; requests for a
  capability with no handler bound are rejected by the transport layer itself, not by
  this core. A process that has exited, or has no server, answers nothing.
\<close>

definition receive :: "'f collaborators \<Rightarrow> 'f process \<Rightarrow> request \<Rightarrow> (exn + response) option" where
  "receive c p req =
     (case p of
        Exited s out \<Rightarrow> None
      | Serving st \<Rightarrow>
          (case server st of
             None \<Rightarrow> None
           | Some srv \<Rightarrow>
               Some (if schema_of req \<in> set (handlers srv)
                     then runHandler c st req
                     else Inl (MethodNotFound ''Method not found''))))"

text \<open>
  Modelled from the spec: \<open>ToolManager.call\<close> (the class is imported, not defined, by
  \<open>EasyMCP.ts\<close>). Look the tool up by name, failing with \<open>ToolNotFoundError\<close> if
  absent; for every input marked required the key must be present in the arguments,
  else fail with \<open>MissingArgumentError\<close> of that parameter; invoke the handler with the
  arguments and the context; an exception of the handler propagates as a
  \<open>ToolExecutionError\<close> carrying the original message; the handler's return value is
  coerced to text. How a handler value runs (\<open>invoke\<close>) and the coercion (\<open>toText\<close>)
  are parameters.
\<close>

fun arg_keys :: "json option \<Rightarrow> string list" where
  "arg_keys (Some (JObj kvs)) = map fst kvs"
| "arg_keys a = []"

definition ToolManager_call ::
  "('f \<Rightarrow> json option \<Rightarrow> 'f callContext \<Rightarrow> exn + json) \<Rightarrow> (json \<Rightarrow> string) \<Rightarrow>
   'f toolManager \<Rightarrow> string \<Rightarrow> json option \<Rightarrow> 'f callContext \<Rightarrow> exn + string" where
  "ToolManager_call invoke toText tm n args ctx =
     (case find (\<lambda>t. tool_name t = n) tm of
        None \<Rightarrow> Inl (ToolNotFoundError n)
      | Some t \<Rightarrow>
          (case find (\<lambda>i. required i \<and> in_name i \<notin> set (arg_keys args)) (inputs t) of
             Some i \<Rightarrow> Inl (MissingArgumentError (in_name i))
           | None \<Rightarrow>
               (case invoke (tool_fn t) args ctx of
                  Inl e \<Rightarrow> Inl (ToolExecutionError (message e))
                | Inr v \<Rightarrow> Inr (toText v))))"

section \<open>Logging\<close>

text \<open>
  \<open>sendLog\<close>: \<open>LogFormatter.format\<close> is a parameter; \<open>sendLoggingMessage\<close> hands the
  level and the formatted text to the server.
\<close>

definition sendLoggingMessage :: "server \<Rightarrow> string \<Rightarrow> string \<Rightarrow> server" where
  "sendLoggingMessage srv level msg = srv\<lparr>sent := sent srv @ [(level, msg)]\<rparr>"

definition sendLog :: "(string \<Rightarrow> string \<Rightarrow> string) \<Rightarrow> 'f mcp \<Rightarrow> string \<Rightarrow> string \<Rightarrow> exn + 'f mcp" where
  "sendLog format st level msg =
     (case server st of
        None \<Rightarrow> Inl not_initialized
      | Some srv \<Rightarrow>
          Inr (st\<lparr>server := Some (sendLoggingMessage srv level (format level msg))\<rparr>))"

section \<open>The Tool decorator\<close>

text \<open>
  A method of a class is a function value together with the metadata object the
  decorators attach to it under \<open>metadataKey\<close>; an undecorated method has none.
\<close>

record 'f methodMetadata =
  toolConfig :: "'f toolConfig option"
  promptConfig :: "'f promptConfig option"
  rootConfig :: "root option"
  resourceConfig :: "'f resourceConfig option"
  resourceTemplateConfig :: "'f resourceTemplateConfig option"

record 'f method_value =
  m_fn :: 'f
  m_metadata :: "'f methodMetadata option"

record functionConfig =
  fc_description :: "string option"

text \<open>A declared parameter, as \<open>extractFunctionMetadata\<close> reports it.\<close>

record param =
  p_name :: string
  p_type :: string
  p_optional :: bool

definition no_metadata :: "'f methodMetadata" where
  "no_metadata =
     \<lparr>toolConfig = None, promptConfig = None, rootConfig = None,
      resourceConfig = None, resourceTemplateConfig = None\<rparr>"

text \<open>
  \<open>Tool(config)\<close> applied to the method \<open>propertyKey\<close>. \<open>extractFunctionMetadata\<close>
  belongs to \<open>MagicConfig\<close>; the \<open>parameters\<close> of its result are a parameter here.
  \<open>config.description || ""\<close> is the empty string for a missing description.
\<close>

definition Tool :: "functionConfig \<Rightarrow> string \<Rightarrow> param list \<Rightarrow> 'f method_value \<Rightarrow> 'f method_value" where
  "Tool config propertyKey parameters originalMethod =
     (let tc = \<lparr>tool_name = propertyKey,
                tool_description = (case fc_description config of None \<Rightarrow> [] | Some d \<Rightarrow> d),
                inputs = map (\<lambda>p. \<lparr>in_name = p_name p, in_type = p_type p,
                                   in_description = ''a '' @ p_name p @ '' of type '' @ p_type p,
                                   required = (\<not> p_optional p)\<rparr>) parameters,
                tool_fn = m_fn originalMethod\<rparr>;
          md = (case m_metadata originalMethod of None \<Rightarrow> no_metadata | Some md \<Rightarrow> md)
      in originalMethod\<lparr>m_metadata := Some (md\<lparr>toolConfig := Some tc\<rparr>)\<rparr>)"

section \<open>The constructor of EasyMCP\<close>

text \<open>
  What the constructor reads of the subclass: the name of the class, its static
  \<open>rootConfigs\<close> (present only when it is an array), and the own properties of the
  prototype in order, each with the value \<open>this[name]\<close> yields: a function, or
  something that is not one.
\<close>

datatype 'f member = Function "'f method_value" | NotFunction

record 'f classDef =
  class_name :: string
  rootConfigs :: "root list option"
  prototypeProps :: "(string \<times> 'f member) list"

text \<open>\<open>Object.getOwnPropertyNames(Object.prototype)\<close>.\<close>

definition Object_prototype_names :: "string list" where
  "Object_prototype_names =
     [''constructor'', ''__defineGetter__'', ''__defineSetter__'', ''hasOwnProperty'',
      ''__lookupGetter__'', ''__lookupSetter__'', ''isPrototypeOf'',
      ''propertyIsEnumerable'', ''toString'', ''valueOf'', ''__proto__'',
      ''toLocaleString'']"

fun is_function :: "'f member \<Rightarrow> bool" where
  "is_function (Function m) = True"
| "is_function NotFunction = False"

definition childMethods :: "'f classDef \<Rightarrow> (string \<times> 'f member) list" where
  "childMethods cls =
     filter (\<lambda>p. fst p \<notin> set Object_prototype_names)
       (filter (\<lambda>p. is_function (snd p)) (prototypeProps cls))"

definition andThen :: "exn + 'a \<Rightarrow> ('a \<Rightarrow> exn + 'b) \<Rightarrow> exn + 'b" where
  "andThen r f = (case r of Inl e \<Rightarrow> Inl e | Inr x \<Rightarrow> f x)"

text \<open>\<open>if (cfg) { register(cfg) }\<close>.\<close>

definition whenSet :: "'c option \<Rightarrow> ('c \<Rightarrow> 's \<Rightarrow> exn + 's) \<Rightarrow> 's \<Rightarrow> exn + 's" where
  "whenSet cfg register st = (case cfg of None \<Rightarrow> Inr st | Some c \<Rightarrow> register c st)"

fun forEach :: "('x \<Rightarrow> 's \<Rightarrow> exn + 's) \<Rightarrow> 'x list \<Rightarrow> 's \<Rightarrow> exn + 's" where
  "forEach f [] st = Inr st"
| "forEach f (x # xs) st = andThen (f x st) (forEach f xs)"

text \<open>
  The body of \<open>childMethods.forEach\<close>. Reading a configuration of a method that carries
  no metadata object is a property read on \<open>undefined\<close>, a \<open>TypeError\<close>.
\<close>

definition registerMethod :: "dup_policy \<Rightarrow> string \<times> 'f member \<Rightarrow> 'f mcp \<Rightarrow> exn + 'f mcp" where
  "registerMethod pol p st =
     (case snd p of
        NotFunction \<Rightarrow> Inl (TypeError ''Cannot read properties of undefined'')
      | Function m \<Rightarrow>
          (case m_metadata m of
             None \<Rightarrow> Inl (TypeError ''Cannot read properties of undefined'')
           | Some md \<Rightarrow>
               andThen (whenSet (toolConfig md) (tool pol) st) (\<lambda>st1.
               andThen (whenSet (promptConfig md) (prompt pol) st1) (\<lambda>st2.
               andThen (whenSet (rootConfig md) root st2) (\<lambda>st3.
               andThen (whenSet (resourceConfig md) resource st3) (\<lambda>st4.
               whenSet (resourceTemplateConfig md) template st4))))))"

text \<open>
  The registrations of the constructor, everything before \<open>this.serve()\<close>: the
  managers are created by the constructor of \<open>BaseMCP\<close>, the name is the name of the
  class, then the class-level roots and the configurations of each child method.
\<close>

definition registerDecorated ::
  "dup_policy \<Rightarrow> 'f classDef \<Rightarrow> string \<Rightarrow> string option \<Rightarrow> exn + 'f mcp" where
  "registerDecorated pol cls ver desc =
     (let st0 = (BaseMCP [] \<lparr>version = ver, description = desc\<rparr>)\<lparr>mcp_name := class_name cls\<rparr>
      in andThen
           (forEach root (case rootConfigs cls of None \<Rightarrow> [] | Some rs \<Rightarrow> rs) st0)
           (forEach (registerMethod pol) (childMethods cls)))"

text \<open>
  \<open>serve\<close> is an \<open>async\<close> function and the constructor calls it without awaiting it.
  Its body runs synchronously up to its first \<open>await\<close>: the transport and the server
  are created, and the body of \<open>registerCoreHandlers\<close>, which awaits nothing, has run
  before \<open>await this.registerCoreHandlers()\<close> suspends \<open>serve\<close>. An exception of the
  first two steps is caught on the spot and the process exits while the constructor is
  still running. Otherwise the constructor returns with \<open>serve\<close> suspended: the server
  exists, the handlers set so far are bound, nothing is connected, and the promise of
  \<open>registerCoreHandlers\<close> is fulfilled or rejected with what a \<open>setRequestHandler\<close>
  threw.
\<close>

fun bindSome :: "sdk \<Rightarrow> server \<Rightarrow> requestSchema list \<Rightarrow> server \<times> exn option" where
  "bindSome k srv [] = (srv, None)"
| "bindSome k srv (m # ms) =
     (case bindHandler k srv m of
        Inl e \<Rightarrow> (srv, Some e)
      | Inr srv' \<Rightarrow> bindSome k srv' ms)"

text \<open>
  The body of \<open>registerCoreHandlers\<close> as a run: the instance as the body leaves it,
  and the exception that rejects its promise, if any.
\<close>

definition registerCoreHandlers_run :: "sdk \<Rightarrow> 'f mcp \<Rightarrow> 'f mcp \<times> exn option" where
  "registerCoreHandlers_run k st =
     (case server st of
        None \<Rightarrow> (st, Some not_initialized)
      | Some srv \<Rightarrow>
          (let listed = listCapabilities st in
           case bindSome k srv (schemasToBind listed) of
             (srv', r) \<Rightarrow> (st\<lparr>server := Some srv'\<rparr>, r)))"

datatype 'f suspended =
    ExitedBeforeAwait int "(string \<times> exn) list"
  | Awaiting "'f mcp" "exn option"

definition serve_start :: "sdk \<Rightarrow> string list \<Rightarrow> 'f mcp \<Rightarrow> 'f suspended" where
  "serve_start k LOG_LEVELS st =
     (case newStdioServerTransport k of
        Some e \<Rightarrow> ExitedBeforeAwait 1 [(''Error starting server'', e)]
      | None \<Rightarrow>
          (let caps = registerCapabilities LOG_LEVELS st in
           case newServer k (mcp_name st) (version (opts st)) caps of
             Some e \<Rightarrow> ExitedBeforeAwait 1 [(''Error starting server'', e)]
           | None \<Rightarrow>
               (let srv = \<lparr>srv_name = mcp_name st, srv_version = version (opts st),
                           capabilities = caps, handlers = [], connected = False,
                           sent = []\<rparr>
                in case registerCoreHandlers_run k (st\<lparr>server := Some srv\<rparr>) of
                     (st', r) \<Rightarrow> Awaiting st' r)))"

text \<open>
  The rest of \<open>serve\<close>, run when the \<open>await\<close> resumes, on the instance as it is then:
  a rejection goes to the \<open>catch\<close> block, otherwise \<open>this.server.connect(transport)\<close>
  is called.
\<close>

definition serve_resume :: "sdk \<Rightarrow> 'f mcp \<Rightarrow> exn option \<Rightarrow> 'f process" where
  "serve_resume k st r =
     (case r of
        Some e \<Rightarrow> fatal e
      | None \<Rightarrow>
          (case server st of
             None \<Rightarrow> fatal (TypeError ''Cannot read properties of null'')
           | Some srv \<Rightarrow>
               (case connect k srv of
                  Some e \<Rightarrow> fatal e
                | None \<Rightarrow> Serving (st\<lparr>server := Some (srv\<lparr>connected := True\<rparr>)\<rparr>))))"

definition serve_finish :: "sdk \<Rightarrow> 'f suspended \<Rightarrow> 'f process" where
  "serve_finish k s =
     (case s of
        ExitedBeforeAwait c out \<Rightarrow> Exited c out
      | Awaiting st r \<Rightarrow> serve_resume k st r)"

text \<open>
  The constructor: the registrations, then \<open>this.serve()\<close>, of which the constructor
  sees the synchronous part only. It throws what a registration throws.
\<close>

definition EasyMCP ::
  "sdk \<Rightarrow> string list \<Rightarrow> dup_policy \<Rightarrow> 'f classDef \<Rightarrow> string \<Rightarrow> string option \<Rightarrow> exn + 'f suspended" where
  "EasyMCP k LOG_LEVELS pol cls ver desc =
     (case registerDecorated pol cls ver desc of
        Inl e \<Rightarrow> Inl e
      | Inr st \<Rightarrow> Inr (serve_start k LOG_LEVELS st))"

section \<open>Example inputs\<close>

text \<open>
  Concrete inputs at which the theorems below are evaluated: an SDK whose calls all
  succeed and one whose \<open>connect\<close> throws; a server that registers one template and
  nothing else; a server with a static resource, a template, a tool and a root, before
  and after \<open>serve\<close>; sample collaborators; and a decorated class.
\<close>

definition sdk_ok :: sdk where
  "sdk_ok =
     \<lparr>newStdioServerTransport = None, newServer = (\<lambda>n v c. None),
      setRequestHandler = (\<lambda>srv m. None), connect = (\<lambda>srv. None)\<rparr>"

definition sdk_connect_fails :: sdk where
  "sdk_connect_fails = sdk_ok\<lparr>connect := (\<lambda>srv. Some (Error ''stdin closed''))\<rparr>"

definition ex_opts :: serverOptions where
  "ex_opts = \<lparr>version = ''1.0.0'', description = None\<rparr>"

definition ex_levels :: "string list" where
  "ex_levels = [''debug'', ''info'', ''warning'', ''error'']"

definition log_template :: "unit resourceTemplateConfig" where
  "log_template =
     \<lparr>uriTemplate = ''file://{name}.log'', tpl_name = ''log'', tpl_description = ''a log file'',
      tpl_mimeType = ''text/plain'', tpl_fn = ()\<rparr>"

definition templates_only :: "unit mcp" where
  "templates_only =
     \<lparr>mcp_name = ''Logs'', opts = ex_opts,
      resourceManager = \<lparr>resources = [], templates = [log_template]\<rparr>,
      toolManager = [], promptManager = [], rootsManager = [], server = None\<rparr>"

definition templates_only_server :: server where
  "templates_only_server =
     \<lparr>srv_name = ''Logs'', srv_version = ''1.0.0'',
      capabilities = \<lparr>cap_resources = Some (), cap_logging = Some ex_levels,
                      cap_tools = None, cap_prompts = None, cap_roots = None\<rparr>,
      handlers = [], connected = True, sent = []\<rparr>"

definition a_txt :: "unit resourceConfig" where
  "a_txt =
     \<lparr>res_uri = ''file://a.txt'', res_name = ''a'', res_description = ''a text file'',
      res_mimeType = ''text/plain'', res_fn = ()\<rparr>"

definition add_tool :: "unit toolConfig" where
  "add_tool =
     \<lparr>tool_name = ''add'', tool_description = ''adds two numbers'',
      inputs = [\<lparr>in_name = ''a'', in_type = ''number'',
                 in_description = ''a a of type number'', required = True\<rparr>,
                \<lparr>in_name = ''b'', in_type = ''number'',
                 in_description = ''a b of type number'', required = True\<rparr>],
      tool_fn = ()\<rparr>"

definition greet_prompt :: "unit promptConfig" where
  "greet_prompt =
     \<lparr>prompt_name = ''greet'', prompt_description = ''greets'', prompt_args = [],
      prompt_fn = ()\<rparr>"

definition home_root :: root where
  "home_root = \<lparr>root_uri = ''file:///home'', root_name = ''home''\<rparr>"

definition ex_registry :: "unit mcp" where
  "ex_registry =
     \<lparr>mcp_name = ''Example'', opts = ex_opts,
      resourceManager = \<lparr>resources = [a_txt], templates = [log_template]\<rparr>,
      toolManager = [add_tool], promptManager = [], rootsManager = [home_root],
      server = None\<rparr>"

definition ex_server :: server where
  "ex_server =
     \<lparr>srv_name = ''Example'', srv_version = ''1.0.0'',
      capabilities = \<lparr>cap_resources = Some (), cap_logging = Some ex_levels,
                      cap_tools = Some (), cap_prompts = None, cap_roots = Some ()\<rparr>,
      handlers = [ListResources, ListResourceTemplates, ReadResource, ListTools, CallTool,
                  ListRoots],
      connected = True, sent = []\<rparr>"

definition ex_serving :: "unit mcp" where
  "ex_serving = ex_registry\<lparr>server := Some ex_server\<rparr>"

definition ex_get :: "unit resourceManager \<Rightarrow> string \<Rightarrow> exn + readResourceResult" where
  "ex_get rm uri =
     (if uri \<in> set (map res_uri (resources rm))
      then Inr \<lparr>contents = [\<lparr>rc_uri = uri, rc_mimeType = ''text/plain'', rc_text = ''hello''\<rparr>]\<rparr>
      else if uri = ''file://broken.log'' then Inl (ResourceError ''disk failure'')
      else Inl (ResourceNotFoundError uri))"

definition ex_invoke :: "unit \<Rightarrow> json option \<Rightarrow> unit callContext \<Rightarrow> exn + json" where
  "ex_invoke f args ctx = Inr (JNum 3)"

fun ex_toText :: "json \<Rightarrow> string" where
  "ex_toText (JStr s) = s"
| "ex_toText (JNum n) = (if n = 3 then ''3'' else ''a number'')"
| "ex_toText v = ''a value''"

definition ex_collab :: "unit collaborators" where
  "ex_collab =
     \<lparr>rm_get = ex_get, tm_call = ToolManager_call ex_invoke ex_toText,
      pm_call = (\<lambda>pm n args. Inl (Error ''no such prompt''))\<rparr>"

definition ex_format :: "string \<Rightarrow> string \<Rightarrow> string" where
  "ex_format level msg = ''['' @ level @ ''] '' @ msg"

definition add_params :: "param list" where
  "add_params =
     [\<lparr>p_name = ''a'', p_type = ''number'', p_optional = False\<rparr>,
      \<lparr>p_name = ''round'', p_type = ''boolean'', p_optional = True\<rparr>]"

definition add_method :: "unit method_value" where
  "add_method = \<lparr>m_fn = (), m_metadata = None\<rparr>"

definition calculator :: "unit classDef" where
  "calculator =
     \<lparr>class_name = ''Calculator'', rootConfigs = Some [home_root],
      prototypeProps =
        [(''constructor'', Function \<lparr>m_fn = (), m_metadata = None\<rparr>),
         (''add'', Function (Tool \<lparr>fc_description = Some ''adds two numbers''\<rparr> ''add''
                              add_params add_method)),
         (''precision'', NotFunction)]\<rparr>"

definition calculator_registry :: "unit mcp" where
  "calculator_registry =
     \<lparr>mcp_name = ''Calculator'', opts = ex_opts,
      resourceManager = \<lparr>resources = [], templates = []\<rparr>,
      toolManager =
        [\<lparr>tool_name = ''add'', tool_description = ''adds two numbers'',
          inputs = [\<lparr>in_name = ''a'', in_type = ''number'',
                     in_description = ''a a of type number'', required = True\<rparr>,
                    \<lparr>in_name = ''round'', in_type = ''boolean'',
                     in_description = ''a round of type boolean'', required = False\<rparr>],
          tool_fn = ()\<rparr>],
      promptManager = [], rootsManager = [home_root], server = None\<rparr>"

definition calculator_server :: server where
  "calculator_server =
     \<lparr>srv_name = ''Calculator'', srv_version = ''1.0.0'',
      capabilities = \<lparr>cap_resources = None, cap_logging = Some ex_levels,
                      cap_tools = Some (), cap_prompts = None, cap_roots = Some ()\<rparr>,
      handlers = [ListTools, CallTool, ListRoots], connected = True, sent = []\<rparr>"

definition calculator_instance :: "unit mcp" where
  "calculator_instance =
     calculator_registry\<lparr>server := Some (calculator_server\<lparr>connected := False\<rparr>)\<rparr>"

definition stringer :: "unit classDef" where
  "stringer =
     \<lparr>class_name = ''Stringer'', rootConfigs = None,
      prototypeProps =
        [(''constructor'', Function \<lparr>m_fn = (), m_metadata = None\<rparr>),
         (''toString'', Function (Tool \<lparr>fc_description = Some ''renders the value''\<rparr>
                                   ''toString'' [] add_method))]\<rparr>"

definition stringer_instance :: "unit mcp" where
  "stringer_instance =
     \<lparr>mcp_name = ''Stringer'', opts = ex_opts,
      resourceManager = \<lparr>resources = [], templates = []\<rparr>,
      toolManager = [], promptManager = [], rootsManager = [],
      server = Some
        \<lparr>srv_name = ''Stringer'', srv_version = ''1.0.0'',
         capabilities = \<lparr>cap_resources = None, cap_logging = Some ex_levels,
                         cap_tools = None, cap_prompts = None, cap_roots = None\<rparr>,
         handlers = [], connected = False, sent = []\<rparr>\<rparr>"

section \<open>Auxiliary notions for the registration loop\<close>

text \<open>
  \<open>grows st st'\<close>: the registries of \<open>st'\<close> extend those of \<open>st\<close> and the server is
  the same. \<open>registered md st\<close>: every configuration of the metadata \<open>md\<close> is in its
  registry (tools and prompts by name, since a later duplicate may replace the entry).
\<close>

definition grows :: "'f mcp \<Rightarrow> 'f mcp \<Rightarrow> bool" where
  "grows st st' =
     (set (map tool_name (toolManager st)) \<subseteq> set (map tool_name (toolManager st'))
      \<and> set (map prompt_name (promptManager st)) \<subseteq> set (map prompt_name (promptManager st'))
      \<and> (\<exists>rs. rootsManager st' = rootsManager st @ rs)
      \<and> set (resources (resourceManager st)) \<subseteq> set (resources (resourceManager st'))
      \<and> set (templates (resourceManager st)) \<subseteq> set (templates (resourceManager st'))
      \<and> server st' = server st)"

definition registered :: "'f methodMetadata \<Rightarrow> 'f mcp \<Rightarrow> bool" where
  "registered md st =
     ((\<forall>c. toolConfig md = Some c \<longrightarrow> tool_name c \<in> set (map tool_name (toolManager st)))
      \<and> (\<forall>c. promptConfig md = Some c \<longrightarrow>
             prompt_name c \<in> set (map prompt_name (promptManager st)))
      \<and> (\<forall>r. rootConfig md = Some r \<longrightarrow> r \<in> set (rootsManager st))
      \<and> (\<forall>c. resourceConfig md = Some c \<longrightarrow> c \<in> set (resources (resourceManager st)))
      \<and> (\<forall>c. resourceTemplateConfig md = Some c \<longrightarrow>
             c \<in> set (templates (resourceManager st))))"

section \<open>Lemmas about the model\<close>

lemma lists_empty [simp]:
  "(listResources rm = []) = (resources rm = [])"
  "(listTemplates rm = []) = (templates rm = [])"
  "(ToolManager_list tm = []) = (tm = [])"
  "(PromptManager_list pm = []) = (pm = [])"
  "(RootsManager_list rs = []) = (rs = [])"
  by (simp_all add: listResources_def listTemplates_def ToolManager_list_def
      PromptManager_list_def RootsManager_list_def)

lemma registerCapabilities_fields:
  "cap_resources (registerCapabilities L st) =
     (if resources (resourceManager st) \<noteq> [] \<or> templates (resourceManager st) \<noteq> [] then Some () else None)"
  "cap_logging (registerCapabilities L st) = Some L"
  "cap_tools (registerCapabilities L st) = (if toolManager st \<noteq> [] then Some () else None)"
  "cap_prompts (registerCapabilities L st) = (if promptManager st \<noteq> [] then Some () else None)"
  "cap_roots (registerCapabilities L st) = (if rootsManager st \<noteq> [] then Some () else None)"
  by (simp_all add: registerCapabilities_def Let_def)

lemma named_add_nonempty: "named_add pol key cfg xs = Inr ys \<Longrightarrow> ys \<noteq> []"
  by (cases pol) (auto simp: named_add_def split: if_splits)

lemma bindAll_Inr:
  "bindAll k srv ms = Inr srv' \<Longrightarrow> srv' = srv\<lparr>handlers := handlers srv @ ms\<rparr>"
proof (induction ms arbitrary: srv)
  case Nil
  then show ?case by simp
next
  case (Cons m ms)
  show ?case
  proof (cases "setRequestHandler k srv m")
    case None
    with Cons.prems have "bindAll k (srv\<lparr>handlers := handlers srv @ [m]\<rparr>) ms = Inr srv'"
      by (simp add: bindHandler_def)
    from Cons.IH [OF this] show ?thesis by simp
  next
    case (Some e)
    with Cons.prems show ?thesis by (simp add: bindHandler_def)
  qed
qed

lemma registerCoreHandlers_Inr:
  assumes "registerCoreHandlers k st = Inr st'"
  shows "\<exists>srv. server st = Some srv \<and>
           st' = st\<lparr>server := Some (srv\<lparr>handlers := handlers srv @ schemasToBind (listCapabilities st)\<rparr>)\<rparr>"
  using assms
  by (auto simp: registerCoreHandlers_def Let_def split: option.splits sum.splits dest!: bindAll_Inr)

lemma serve_Serving:
  assumes "serve k L st = Serving st'"
  shows "st' = st\<lparr>server := Some \<lparr>srv_name = mcp_name st, srv_version = version (opts st),
                  capabilities = registerCapabilities L st,
                  handlers = schemasToBind (listCapabilities st),
                  connected = True, sent = []\<rparr>\<rparr>"
  using assms
  by (auto simp: serve_def fatal_def Let_def listCapabilities_def split: option.splits sum.splits
      dest!: registerCoreHandlers_Inr)

lemma serve_cases:
  "(\<exists>st'. serve k L st = Serving st') \<or> (\<exists>e. serve k L st = Exited 1 [(''Error starting server'', e)])"
  by (auto simp: serve_def fatal_def Let_def split: option.splits sum.splits)

lemma serve_ex_registry: "serve sdk_ok ex_levels ex_registry = Serving ex_serving"
  by (simp add: serve_def sdk_ok_def registerCapabilities_def Let_def registerCoreHandlers_def
      schemasToBind_def listCapabilities_def ex_opts_def ex_registry_def ex_serving_def
      ex_server_def bindHandler_def)

lemma grows_refl: "grows st st"
  by (simp add: grows_def)

lemma grows_trans: "grows a b \<Longrightarrow> grows b c \<Longrightarrow> grows a c"
  unfolding grows_def by (elim conjE exE) (intro conjI, auto)

lemma replace_keeps_keys:
  "map key (map (\<lambda>x. if key x = key cfg then cfg else x) xs) = map key xs"
  by (induction xs) simp_all

lemma named_add_keys:
  assumes "named_add pol key cfg xs = Inr ys"
  shows "set (map key ys) = insert (key cfg) (set (map key xs))"
proof (cases "key cfg \<in> set (map key xs)")
  case True
  with assms have "pol = Replace" and "ys = map (\<lambda>x. if key x = key cfg then cfg else x) xs"
    by (cases pol; simp add: named_add_def)+
  then have "map key ys = map key xs"
    by (simp only: replace_keeps_keys)
  with True show ?thesis by (simp only: insert_absorb)
next
  case False
  with assms have "ys = xs @ [cfg]" by (simp add: named_add_def)
  then show ?thesis by simp
qed

lemma tool_grows:
  assumes "tool pol c st = Inr st'"
  shows "grows st st'" and "tool_name c \<in> set (map tool_name (toolManager st'))"
proof -
  from assms obtain tm where tm: "named_add pol tool_name c (toolManager st) = Inr tm"
    and st': "st' = st\<lparr>toolManager := tm\<rparr>"
    by (auto simp: tool_def ToolManager_add_def split: sum.splits)
  from named_add_keys [OF tm] st' show "grows st st'"
    by (auto simp: grows_def)
  from named_add_keys [OF tm] st' show "tool_name c \<in> set (map tool_name (toolManager st'))"
    by simp
qed

lemma prompt_grows:
  assumes "prompt pol c st = Inr st'"
  shows "grows st st'" and "prompt_name c \<in> set (map prompt_name (promptManager st'))"
proof -
  from assms obtain pm where pm: "named_add pol prompt_name c (promptManager st) = Inr pm"
    and st': "st' = st\<lparr>promptManager := pm\<rparr>"
    by (auto simp: prompt_def PromptManager_add_def split: sum.splits)
  from named_add_keys [OF pm] st' show "grows st st'"
    by (auto simp: grows_def)
  from named_add_keys [OF pm] st' show "prompt_name c \<in> set (map prompt_name (promptManager st'))"
    by simp
qed

lemma root_Inr: "root r st = Inr st' \<Longrightarrow> st' = st\<lparr>rootsManager := rootsManager st @ [r]\<rparr>"
  by (simp add: root_def RootsManager_add_def)

lemma root_grows:
  assumes "root r st = Inr st'"
  shows "grows st st'" and "r \<in> set (rootsManager st')"
  using root_Inr [OF assms] by (simp_all add: grows_def)

lemma resource_grows:
  assumes "resource c st = Inr st'"
  shows "grows st st'" and "c \<in> set (resources (resourceManager st'))"
  using assms by (auto simp: resource_def addResource_def grows_def split: if_splits)

lemma template_grows:
  assumes "template c st = Inr st'"
  shows "grows st st'" and "c \<in> set (templates (resourceManager st'))"
  using assms by (auto simp: template_def addTemplate_def grows_def)

lemma registered_mono: "grows st st' \<Longrightarrow> registered md st \<Longrightarrow> registered md st'"
  unfolding grows_def registered_def by (elim conjE exE) (intro conjI, auto)

lemma andThen_Inr: "andThen r f = Inr y \<Longrightarrow> \<exists>x. r = Inr x \<and> f x = Inr y"
  by (cases r) (simp_all add: andThen_def)

lemma registerMethod_Inr:
  assumes "registerMethod pol p st = Inr st'"
  shows "\<exists>m md. snd p = Function m \<and> m_metadata m = Some md \<and> grows st st' \<and> registered md st'"
proof -
  from assms obtain m md where m: "snd p = Function m" and md: "m_metadata m = Some md"
    by (auto simp: registerMethod_def split: member.splits option.splits)
  from assms m md obtain st1 st2 st3 st4 where
    1: "whenSet (toolConfig md) (tool pol) st = Inr st1"
    and 2: "whenSet (promptConfig md) (prompt pol) st1 = Inr st2"
    and 3: "whenSet (rootConfig md) root st2 = Inr st3"
    and 4: "whenSet (resourceConfig md) resource st3 = Inr st4"
    and 5: "whenSet (resourceTemplateConfig md) template st4 = Inr st'"
    by (auto simp: registerMethod_def dest!: andThen_Inr)
  from 1 have g1: "grows st st1"
    and r1: "\<forall>c. toolConfig md = Some c \<longrightarrow> tool_name c \<in> set (map tool_name (toolManager st1))"
    by (auto simp: whenSet_def grows_refl split: option.splits dest: tool_grows)
  from 2 have g2: "grows st1 st2"
    and r2: "\<forall>c. promptConfig md = Some c \<longrightarrow>
                prompt_name c \<in> set (map prompt_name (promptManager st2))"
    by (auto simp: whenSet_def grows_refl split: option.splits dest: prompt_grows)
  from 3 have g3: "grows st2 st3"
    and r3: "\<forall>r. rootConfig md = Some r \<longrightarrow> r \<in> set (rootsManager st3)"
    by (auto simp: whenSet_def grows_refl split: option.splits dest: root_grows)
  from 4 have g4: "grows st3 st4"
    and r4: "\<forall>c. resourceConfig md = Some c \<longrightarrow> c \<in> set (resources (resourceManager st4))"
    by (auto simp: whenSet_def grows_refl split: option.splits dest: resource_grows)
  from 5 have g5: "grows st4 st'"
    and r5: "\<forall>c. resourceTemplateConfig md = Some c \<longrightarrow>
                c \<in> set (templates (resourceManager st'))"
    by (auto simp: whenSet_def grows_refl split: option.splits dest: template_grows)
  have g25: "grows st1 st'" using g2 g3 g4 g5 by (blast intro: grows_trans)
  have g35: "grows st2 st'" using g3 g4 g5 by (blast intro: grows_trans)
  have g45: "grows st3 st'" using g4 g5 by (blast intro: grows_trans)
  have g: "grows st st'" using g1 g25 by (blast intro: grows_trans)
  have R1: "\<forall>c. toolConfig md = Some c \<longrightarrow> tool_name c \<in> set (map tool_name (toolManager st'))"
    using r1 g25 unfolding grows_def by blast
  have R2: "\<forall>c. promptConfig md = Some c \<longrightarrow>
                prompt_name c \<in> set (map prompt_name (promptManager st'))"
    using r2 g35 unfolding grows_def by blast
  have R3: "\<forall>r. rootConfig md = Some r \<longrightarrow> r \<in> set (rootsManager st')"
    using r3 g45 unfolding grows_def by auto
  have R4: "\<forall>c. resourceConfig md = Some c \<longrightarrow> c \<in> set (resources (resourceManager st'))"
    using r4 g5 unfolding grows_def by blast
  have "registered md st'"
    unfolding registered_def using R1 R2 R3 R4 r5 by blast
  with m md g show ?thesis by blast
qed

lemma forEach_registerMethod:
  assumes "forEach (registerMethod pol) ps st = Inr st'"
  shows "grows st st' \<and>
         (\<forall>p \<in> set ps. \<exists>m md. snd p = Function m \<and> m_metadata m = Some md \<and> registered md st')"
  using assms
proof (induction ps arbitrary: st)
  case Nil
  then show ?case by (simp add: grows_refl)
next
  case (Cons p ps)
  from Cons.prems obtain s1 where 1: "registerMethod pol p st = Inr s1"
    and 2: "forEach (registerMethod pol) ps s1 = Inr st'"
    by (auto dest!: andThen_Inr)
  from registerMethod_Inr [OF 1] obtain m md where m: "snd p = Function m"
    and md: "m_metadata m = Some md" and g1: "grows st s1" and r1: "registered md s1"
    by blast
  from Cons.IH [OF 2] have g2: "grows s1 st'"
    and rest: "\<forall>p \<in> set ps. \<exists>m md. snd p = Function m \<and> m_metadata m = Some md \<and> registered md st'"
    by blast+
  from g2 r1 have "registered md st'" by (rule registered_mono)
  with m md rest g1 g2 show ?case
    by (auto intro: grows_trans)
qed

lemma forEach_root:
  "forEach root rs st = Inr st' \<Longrightarrow> st' = st\<lparr>rootsManager := rootsManager st @ rs\<rparr>"
proof (induction rs arbitrary: st)
  case Nil
  then show ?case by simp
next
  case (Cons r rs)
  from Cons.prems obtain s1 where 1: "root r st = Inr s1" and 2: "forEach root rs s1 = Inr st'"
    by (auto dest!: andThen_Inr)
  from Cons.IH [OF 2] root_Inr [OF 1] show ?case by simp
qed

lemma registerDecorated_Inr:
  assumes "registerDecorated pol cls ver desc = Inr st"
  shows "server st = None"
    and "\<exists>rs. rootsManager st = (case rootConfigs cls of None \<Rightarrow> [] | Some cs \<Rightarrow> cs) @ rs"
    and "\<forall>p \<in> set (childMethods cls).
            \<exists>m md. snd p = Function m \<and> m_metadata m = Some md \<and> registered md st"
proof -
  let ?st0 = "(BaseMCP [] \<lparr>version = ver, description = desc\<rparr>)\<lparr>mcp_name := class_name cls\<rparr> :: 'a mcp"
  let ?cs = "case rootConfigs cls of None \<Rightarrow> [] | Some cs \<Rightarrow> cs"
  from assms obtain s1 where 1: "forEach root ?cs ?st0 = Inr s1"
    and 2: "forEach (registerMethod pol) (childMethods cls) s1 = Inr st"
    by (auto simp: registerDecorated_def Let_def dest!: andThen_Inr)
  from forEach_root [OF 1] have s1: "server s1 = None" "rootsManager s1 = ?cs"
    by (simp_all add: BaseMCP_def)
  from forEach_registerMethod [OF 2] have g: "grows s1 st"
    and r: "\<forall>p \<in> set (childMethods cls).
            \<exists>m md. snd p = Function m \<and> m_metadata m = Some md \<and> registered md st"
    by blast+
  from g s1 show "server st = None" by (simp add: grows_def)
  from g s1 show "\<exists>rs. rootsManager st = ?cs @ rs" by (auto simp: grows_def)
  from r show "\<forall>p \<in> set (childMethods cls).
            \<exists>m md. snd p = Function m \<and> m_metadata m = Some md \<and> registered md st" .
qed

lemma registration_keeps_server:
  "tool pol tc st = Inr st1 \<Longrightarrow> server st1 = server st"
  "prompt pol pc st = Inr st2 \<Longrightarrow> server st2 = server st"
  "root r st = Inr st3 \<Longrightarrow> server st3 = server st"
  "resource rc st = Inr st4 \<Longrightarrow> server st4 = server st"
  "template tp st = Inr st5 \<Longrightarrow> server st5 = server st"
  by (auto simp: grows_def dest: tool_grows(1) prompt_grows(1) root_grows(1) resource_grows(1)
      template_grows(1))

lemma registerDecorated_calculator:
  "registerDecorated Reject calculator ''1.0.0'' None = Inr calculator_registry"
  by (simp add: registerDecorated_def calculator_def childMethods_def Object_prototype_names_def
      registerMethod_def Tool_def add_params_def add_method_def no_metadata_def andThen_def
      whenSet_def BaseMCP_def root_def RootsManager_add_def tool_def ToolManager_add_def
      named_add_def calculator_registry_def ex_opts_def Let_def)

lemma serve_calculator:
  "serve sdk_ok ex_levels calculator_registry
     = Serving (calculator_registry\<lparr>server := Some calculator_server\<rparr>)"
  by (simp add: serve_def sdk_ok_def registerCapabilities_def Let_def registerCoreHandlers_def
      schemasToBind_def listCapabilities_def ex_opts_def calculator_registry_def
      calculator_server_def bindHandler_def)

lemma bindAll_bindSome:
  "bindAll k srv ms = (case bindSome k srv ms of (s, None) \<Rightarrow> Inr s | (s, Some e) \<Rightarrow> Inl e)"
  by (induction ms arbitrary: srv) (simp_all split: sum.splits)

lemma bindSome_handlers:
  "bindSome k srv ms = (srv', r) \<Longrightarrow>
   \<exists>hs. srv' = srv\<lparr>handlers := handlers srv @ hs\<rparr> \<and> (r = None \<longrightarrow> hs = ms)"
proof (induction ms arbitrary: srv)
  case Nil
  then show ?case by simp
next
  case (Cons m ms)
  show ?case
  proof (cases "setRequestHandler k srv m")
    case None
    with Cons.prems have "bindSome k (srv\<lparr>handlers := handlers srv @ [m]\<rparr>) ms = (srv', r)"
      by (simp add: bindHandler_def)
    from Cons.IH [OF this] obtain hs where
      "srv' = srv\<lparr>handlers := handlers srv @ m # hs\<rparr>" and "r = None \<longrightarrow> hs = ms"
      by auto
    then show ?thesis by (intro exI [of _ "m # hs"]) simp
  next
    case (Some e)
    with Cons.prems have "srv' = srv" and "r = Some e"
      by (simp_all add: bindHandler_def)
    then show ?thesis by (intro exI [of _ "[]"]) simp
  qed
qed

lemma registerCoreHandlers_run_agrees:
  "registerCoreHandlers k st =
     (case registerCoreHandlers_run k st of (st', None) \<Rightarrow> Inr st' | (st', Some e) \<Rightarrow> Inl e)"
  by (simp add: registerCoreHandlers_def registerCoreHandlers_run_def Let_def bindAll_bindSome
      split: option.splits prod.splits)

lemma serve_split: "serve k L st = serve_finish k (serve_start k L st)"
  by (simp add: serve_def serve_start_def serve_finish_def serve_resume_def fatal_def Let_def
      registerCoreHandlers_run_agrees registerCoreHandlers_run_def
      split: option.splits prod.splits)

lemma serve_start_Awaiting:
  assumes "serve_start k L st = Awaiting st1 r"
  shows "\<exists>hs. st1 = st\<lparr>server := Some \<lparr>srv_name = mcp_name st, srv_version = version (opts st),
                  capabilities = registerCapabilities L st, handlers = hs,
                  connected = False, sent = []\<rparr>\<rparr>
            \<and> (r = None \<longrightarrow> hs = schemasToBind (listCapabilities st))"
  using assms
  by (auto simp: serve_start_def registerCoreHandlers_run_def Let_def listCapabilities_def
      split: option.splits prod.splits dest!: bindSome_handlers)

lemma serve_resume_Serving:
  assumes "serve_resume k st r = Serving s"
  shows "r = None \<and> (\<exists>srv. server st = Some srv \<and> s = st\<lparr>server := Some (srv\<lparr>connected := True\<rparr>)\<rparr>)"
  using assms by (auto simp: serve_resume_def fatal_def split: option.splits)

lemma serve_start_calculator:
  "serve_start sdk_ok ex_levels calculator_registry = Awaiting calculator_instance None"
  by (simp add: serve_start_def sdk_ok_def registerCapabilities_def Let_def
      registerCoreHandlers_run_def schemasToBind_def listCapabilities_def ex_opts_def
      calculator_registry_def calculator_instance_def calculator_server_def bindHandler_def)

section \<open>The claims\<close>

text \<open>
  C1. Claimed: every capability of the advertised set has its request handlers bound,
  and a capability whose registry is empty gets none. \<open>registerCapabilities\<close>
  advertises \<open>resources\<close> when a static resource or a template is registered, but
  \<open>registerCoreHandlers\<close> binds the three resource handlers only when a static resource
  is. For a server that registers the one template \<open>file://{name}.log\<close> and nothing
  else, the server is created with the \<open>resources\<close> capability and is served with no
  handler bound at all.
\<close>

theorem templates_only_advertised_without_handlers:
  "template log_template (BaseMCP ''Logs'' ex_opts) = Inr templates_only
   \<and> serve sdk_ok ex_levels templates_only =
       Serving (templates_only\<lparr>server := Some
         \<lparr>srv_name = ''Logs'', srv_version = ''1.0.0'',
          capabilities = \<lparr>cap_resources = Some (), cap_logging = Some ex_levels,
                          cap_tools = None, cap_prompts = None, cap_roots = None\<rparr>,
          handlers = [], connected = True, sent = []\<rparr>\<rparr>)"
  by (simp add: template_def addTemplate_def BaseMCP_def templates_only_def log_template_def
      serve_def sdk_ok_def registerCapabilities_def Let_def registerCoreHandlers_def
      schemasToBind_def listCapabilities_def ex_opts_def)

text \<open>
  C2, as amended. When at least one static resource is registered at connect time, so
  that the read-resource handler is bound, a read-resource request for a URI whose lookup
  fails with \<open>ResourceNotFoundError\<close> (no static resource and no template matches) is
  answered with a successful result: one content item that echoes the URI, of type
  \<open>text/plain\<close>, with the text \<open>Resource not found\<close>. Whether templates are registered
  plays no part.
\<close>

theorem missing_resource_placeholder_when_bound:
  assumes "serve k L st = Serving st'"
    and "resources (resourceManager st) \<noteq> []"
    and "rm_get c (resourceManager st') uri = Inl e"
    and "instanceof_ResourceNotFoundError e"
  shows "receive c (serve k L st) (ReadResourceRequest uri) =
           Some (Inr (ReadResourceResult
             \<lparr>contents = [\<lparr>rc_uri = uri, rc_mimeType = ''text/plain'',
                           rc_text = ''Resource not found''\<rparr>]\<rparr>))"
proof -
  from assms(1) have st': "st' = st\<lparr>server := Some \<lparr>srv_name = mcp_name st, srv_version = version (opts st),
                  capabilities = registerCapabilities L st,
                  handlers = schemasToBind (listCapabilities st),
                  connected = True, sent = []\<rparr>\<rparr>"
    by (rule serve_Serving)
  from assms(2) have bound: "ReadResource \<in> set (schemasToBind (listCapabilities st))"
    by (simp add: schemasToBind_def listCapabilities_def)
  from assms(3,4) have "readResourceHandler c st' uri =
      Inr \<lparr>contents = [\<lparr>rc_uri = uri, rc_mimeType = ''text/plain'',
                           rc_text = ''Resource not found''\<rparr>]\<rparr>"
    by (simp add: readResourceHandler_def)
  with bound show ?thesis
    unfolding assms(1) by (simp add: receive_def st')
qed

text \<open>
  The claim as stated, for every URI with no match, fails where the handler is not
  bound: on a server with no registration at all the lookup of \<open>file://missing\<close> finds
  nothing, and the request is rejected with a protocol-level error.
\<close>

theorem missing_resource_rejected_when_unbound:
  "rm_get ex_collab (resourceManager (BaseMCP ''Empty'' ex_opts)) ''file://missing''
     = Inl (ResourceNotFoundError ''file://missing'')
   \<and> receive ex_collab (serve sdk_ok ex_levels (BaseMCP ''Empty'' ex_opts))
       (ReadResourceRequest ''file://missing'')
     = Some (Inl (MethodNotFound ''Method not found''))"
  by (simp add: ex_collab_def ex_get_def BaseMCP_def receive_def serve_def sdk_ok_def
      registerCapabilities_def Let_def registerCoreHandlers_def
      schemasToBind_def listCapabilities_def ex_opts_def)

theorem missing_resource_placeholder_witness:
  "receive ex_collab (serve sdk_ok ex_levels ex_registry) (ReadResourceRequest ''file://missing'') =
           Some (Inr (ReadResourceResult
             \<lparr>contents = [\<lparr>rc_uri = ''file://missing'', rc_mimeType = ''text/plain'',
                           rc_text = ''Resource not found''\<rparr>]\<rparr>))"
proof -
  have 1: "resources (resourceManager ex_registry) \<noteq> []"
    by (simp add: ex_registry_def)
  have 2: "rm_get ex_collab (resourceManager ex_serving) ''file://missing''
            = Inl (ResourceNotFoundError ''file://missing'')"
    by (simp add: ex_collab_def ex_get_def ex_serving_def ex_registry_def a_txt_def)
  have 3: "instanceof_ResourceNotFoundError (ResourceNotFoundError ''file://missing'')"
    by simp
  show ?thesis
    by (rule missing_resource_placeholder_when_bound [OF serve_ex_registry 1 2 3])
qed

text \<open>
  C3, as amended. A log message sent before \<open>serve\<close> has initialised the server
  raises: \<open>sendLog\<close> throws the error \<open>Server not initialized. Call serve() first.\<close>
  and sends nothing.
\<close>

theorem sendLog_before_serve_raises:
  "server st = None \<Longrightarrow>
   sendLog format st level msg = Inl (Error ''Server not initialized. Call serve() first.'')"
  by (simp add: sendLog_def not_initialized_def)

text \<open>
  The claim as stated, that the call is a silent no-op, fails: on an instance with no
  server the call throws and does not return the unchanged instance.
\<close>

theorem sendLog_before_serve_not_silent:
  "sendLog ex_format ex_registry ''info'' ''hello''
     = Inl (Error ''Server not initialized. Call serve() first.'')
   \<and> sendLog ex_format ex_registry ''info'' ''hello'' \<noteq> Inr ex_registry"
  by (simp add: sendLog_def not_initialized_def ex_registry_def)

theorem sendLog_before_serve_raises_witness:
  "server ex_registry = None
   \<and> sendLog ex_format ex_registry ''info'' ''hello''
       = Inl (Error ''Server not initialized. Call serve() first.'')"
proof -
  have 1: "server ex_registry = None" by (simp add: ex_registry_def)
  from sendLog_before_serve_raises [OF 1] 1 show ?thesis by simp
qed

text \<open>
  C4. The capability set computed at connect time holds the flag of a registry if and
  only if that registry is non-empty: \<open>tools\<close>, \<open>prompts\<close> and \<open>roots\<close> for their
  managers, and \<open>resources\<close> for the resource manager, whose two stores (static
  resources and templates) share the one flag. A registration that succeeds makes the
  flag of its registry appear in the capabilities computed next, and the server of a
  served session carries exactly the capabilities computed from the registries at connect
  time.
\<close>

theorem capability_flag_iff_registry_nonempty:
  "(cap_tools (registerCapabilities L st) \<noteq> None) = (toolManager st \<noteq> [])
   \<and> (cap_prompts (registerCapabilities L st) \<noteq> None) = (promptManager st \<noteq> [])
   \<and> (cap_roots (registerCapabilities L st) \<noteq> None) = (rootsManager st \<noteq> [])
   \<and> (cap_resources (registerCapabilities L st) \<noteq> None)
       = (resources (resourceManager st) \<noteq> [] \<or> templates (resourceManager st) \<noteq> [])
   \<and> (tool pol tc st = Inr st1 \<longrightarrow> cap_tools (registerCapabilities L st1) \<noteq> None)
   \<and> (prompt pol pc st = Inr st2 \<longrightarrow> cap_prompts (registerCapabilities L st2) \<noteq> None)
   \<and> (root r st = Inr st3 \<longrightarrow> cap_roots (registerCapabilities L st3) \<noteq> None)
   \<and> (resource rc st = Inr st4 \<longrightarrow> cap_resources (registerCapabilities L st4) \<noteq> None)
   \<and> (template tp st = Inr st5 \<longrightarrow> cap_resources (registerCapabilities L st5) \<noteq> None)
   \<and> (serve k L st = Serving st' \<longrightarrow>
        map_option capabilities (server st') = Some (registerCapabilities L st))"
proof -
  have t: "tool pol tc st = Inr st1 \<Longrightarrow> toolManager st1 \<noteq> []"
    by (auto simp: tool_def ToolManager_add_def split: sum.splits dest: named_add_nonempty)
  have p: "prompt pol pc st = Inr st2 \<Longrightarrow> promptManager st2 \<noteq> []"
    by (auto simp: prompt_def PromptManager_add_def split: sum.splits dest: named_add_nonempty)
  have r: "root r st = Inr st3 \<Longrightarrow> rootsManager st3 \<noteq> []"
    by (auto simp: root_def RootsManager_add_def)
  have rs: "resource rc st = Inr st4 \<Longrightarrow> resources (resourceManager st4) \<noteq> []"
    by (auto simp: resource_def addResource_def split: if_splits)
  have tp: "template tp st = Inr st5 \<Longrightarrow> templates (resourceManager st5) \<noteq> []"
    by (auto simp: template_def addTemplate_def)
  have s: "serve k L st = Serving st' \<Longrightarrow>
        map_option capabilities (server st') = Some (registerCapabilities L st)"
    by (auto dest!: serve_Serving)
  show ?thesis
    using t p r rs tp s by (simp add: registerCapabilities_fields)
qed

theorem capability_flag_iff_registry_nonempty_witness:
  "tool Reject add_tool templates_only = Inr (templates_only\<lparr>toolManager := [add_tool]\<rparr>)
   \<and> cap_tools (registerCapabilities ex_levels templates_only) = None
   \<and> cap_tools (registerCapabilities ex_levels (templates_only\<lparr>toolManager := [add_tool]\<rparr>)) \<noteq> None
   \<and> cap_prompts (registerCapabilities ex_levels (templates_only\<lparr>promptManager := [greet_prompt]\<rparr>)) \<noteq> None
   \<and> cap_roots (registerCapabilities ex_levels (templates_only\<lparr>rootsManager := [home_root]\<rparr>)) \<noteq> None
   \<and> cap_resources (registerCapabilities ex_levels templates_only) \<noteq> None
   \<and> serve sdk_ok ex_levels templates_only
        = Serving (templates_only\<lparr>server := Some templates_only_server\<rparr>)
   \<and> capabilities templates_only_server = registerCapabilities ex_levels templates_only"
proof -
  let ?st1 = "templates_only\<lparr>toolManager := [add_tool]\<rparr>"
  let ?st2 = "templates_only\<lparr>promptManager := [greet_prompt]\<rparr>"
  let ?st3 = "templates_only\<lparr>rootsManager := [home_root]\<rparr>"
  let ?st4 = "templates_only\<lparr>resourceManager := \<lparr>resources = [a_txt], templates = [log_template]\<rparr>\<rparr>"
  let ?st5 = "templates_only\<lparr>resourceManager := \<lparr>resources = [], templates = [log_template, log_template]\<rparr>\<rparr>"
  let ?st' = "templates_only\<lparr>server := Some templates_only_server\<rparr>"
  have 1: "tool Reject add_tool templates_only = Inr ?st1"
    by (simp add: tool_def ToolManager_add_def named_add_def templates_only_def)
  have 2: "prompt Reject greet_prompt templates_only = Inr ?st2"
    by (simp add: prompt_def PromptManager_add_def named_add_def templates_only_def)
  have 3: "root home_root templates_only = Inr ?st3"
    by (simp add: root_def RootsManager_add_def templates_only_def)
  have 4: "resource a_txt templates_only = Inr ?st4"
    by (simp add: resource_def addResource_def templates_only_def a_txt_def)
  have 5: "template log_template templates_only = Inr ?st5"
    by (simp add: template_def addTemplate_def templates_only_def log_template_def)
  have 6: "serve sdk_ok ex_levels templates_only = Serving ?st'"
    by (simp add: serve_def sdk_ok_def registerCapabilities_def Let_def registerCoreHandlers_def
      schemasToBind_def listCapabilities_def ex_opts_def templates_only_def
      templates_only_server_def)
  have 7: "toolManager templates_only = []"
    "templates (resourceManager templates_only) \<noteq> []"
    by (simp_all add: templates_only_def)
  have 8: "server ?st' = Some templates_only_server" by simp
  note a = capability_flag_iff_registry_nonempty [of ex_levels templates_only Reject add_tool ?st1 greet_prompt ?st2
      home_root ?st3 a_txt ?st4 log_template ?st5 sdk_ok ?st']
  from a 7 have "cap_tools (registerCapabilities ex_levels templates_only) = None"
    by blast
  moreover from a 1 have "cap_tools (registerCapabilities ex_levels ?st1) \<noteq> None"
    by blast
  moreover from a 2 have "cap_prompts (registerCapabilities ex_levels ?st2) \<noteq> None"
    by blast
  moreover from a 3 have "cap_roots (registerCapabilities ex_levels ?st3) \<noteq> None"
    by blast
  moreover from a 7 have "cap_resources (registerCapabilities ex_levels templates_only) \<noteq> None"
    by blast
  moreover from a 6 have "map_option capabilities (server ?st')
      = Some (registerCapabilities ex_levels templates_only)"
    by blast
  then have "capabilities templates_only_server = registerCapabilities ex_levels templates_only"
    unfolding 8 by simp
  ultimately show ?thesis using 1 6 by blast
qed

text \<open>
  C5. \<open>serve\<close> either ends serving or has logged the error and exited with status 1.
  An exception of any step (creating the transport, creating the server with the computed
  capabilities, binding the handlers, connecting) ends in that exit with the exception
  logged; and a served session has every handler bound and its connect completed: there
  is no state in between.
\<close>

theorem serve_failure_is_fatal:
  "((\<exists>st'. serve k L st = Serving st')
      \<or> (\<exists>e. serve k L st = Exited 1 [(''Error starting server'', e)]))
   \<and> (newStdioServerTransport k = Some e1 \<longrightarrow>
        serve k L st = Exited 1 [(''Error starting server'', e1)])
   \<and> (newStdioServerTransport k = None
        \<and> newServer k (mcp_name st) (version (opts st)) (registerCapabilities L st) = Some e2 \<longrightarrow>
        serve k L st = Exited 1 [(''Error starting server'', e2)])
   \<and> (newStdioServerTransport k = None
        \<and> newServer k (mcp_name st) (version (opts st)) (registerCapabilities L st) = None
        \<and> registerCoreHandlers k
             (st\<lparr>server := Some \<lparr>srv_name = mcp_name st, srv_version = version (opts st),
                    capabilities = registerCapabilities L st, handlers = [],
                    connected = False, sent = []\<rparr>\<rparr>) = Inl e3 \<longrightarrow>
        serve k L st = Exited 1 [(''Error starting server'', e3)])
   \<and> (newStdioServerTransport k = None
        \<and> newServer k (mcp_name st) (version (opts st)) (registerCapabilities L st) = None
        \<and> registerCoreHandlers k
             (st\<lparr>server := Some \<lparr>srv_name = mcp_name st, srv_version = version (opts st),
                    capabilities = registerCapabilities L st, handlers = [],
                    connected = False, sent = []\<rparr>\<rparr>) = Inr st1
        \<and> server st1 = Some srv1 \<and> connect k srv1 = Some e4 \<longrightarrow>
        serve k L st = Exited 1 [(''Error starting server'', e4)])
   \<and> (serve k L st = Serving st' \<longrightarrow>
        st' = st\<lparr>server := Some \<lparr>srv_name = mcp_name st, srv_version = version (opts st),
                  capabilities = registerCapabilities L st,
                  handlers = schemasToBind (listCapabilities st),
                  connected = True, sent = []\<rparr>\<rparr>)"
proof -
  have a: "(\<exists>st'. serve k L st = Serving st')
      \<or> (\<exists>e. serve k L st = Exited 1 [(''Error starting server'', e)])"
    by (rule serve_cases)
  have b: "newStdioServerTransport k = Some e1 \<Longrightarrow>
        serve k L st = Exited 1 [(''Error starting server'', e1)]" for e1
    by (simp add: serve_def fatal_def)
  have c: "newStdioServerTransport k = None \<Longrightarrow>
        newServer k (mcp_name st) (version (opts st)) (registerCapabilities L st) = Some e2 \<Longrightarrow>
        serve k L st = Exited 1 [(''Error starting server'', e2)]" for e2
    by (simp add: serve_def fatal_def Let_def)
  have d: "newStdioServerTransport k = None \<Longrightarrow>
        newServer k (mcp_name st) (version (opts st)) (registerCapabilities L st) = None \<Longrightarrow>
        registerCoreHandlers k
             (st\<lparr>server := Some \<lparr>srv_name = mcp_name st, srv_version = version (opts st),
                    capabilities = registerCapabilities L st, handlers = [],
                    connected = False, sent = []\<rparr>\<rparr>) = Inl e3 \<Longrightarrow>
        serve k L st = Exited 1 [(''Error starting server'', e3)]" for e3
    by (simp add: serve_def fatal_def Let_def)
  have e: "newStdioServerTransport k = None \<Longrightarrow>
        newServer k (mcp_name st) (version (opts st)) (registerCapabilities L st) = None \<Longrightarrow>
        registerCoreHandlers k
             (st\<lparr>server := Some \<lparr>srv_name = mcp_name st, srv_version = version (opts st),
                    capabilities = registerCapabilities L st, handlers = [],
                    connected = False, sent = []\<rparr>\<rparr>) = Inr st1 \<Longrightarrow>
        server st1 = Some srv1 \<Longrightarrow> connect k srv1 = Some e4 \<Longrightarrow>
        serve k L st = Exited 1 [(''Error starting server'', e4)]" for e4
    by (simp add: serve_def fatal_def Let_def)
  have f: "serve k L st = Serving st' \<Longrightarrow>
        st' = st\<lparr>server := Some \<lparr>srv_name = mcp_name st, srv_version = version (opts st),
                  capabilities = registerCapabilities L st,
                  handlers = schemasToBind (listCapabilities st),
                  connected = True, sent = []\<rparr>\<rparr>"
    by (rule serve_Serving)
  from a b c d e f show ?thesis by blast
qed

theorem serve_failure_is_fatal_witness:
  "serve sdk_connect_fails ex_levels ex_registry
     = Exited 1 [(''Error starting server'', Error ''stdin closed'')]
   \<and> serve sdk_ok ex_levels ex_registry = Serving ex_serving
   \<and> ex_serving = ex_registry\<lparr>server := Some \<lparr>srv_name = mcp_name ex_registry,
                  srv_version = version (opts ex_registry),
                  capabilities = registerCapabilities ex_levels ex_registry,
                  handlers = schemasToBind (listCapabilities ex_registry),
                  connected = True, sent = []\<rparr>\<rparr>"
proof -
  let ?srv0 = "\<lparr>srv_name = mcp_name ex_registry, srv_version = version (opts ex_registry),
                    capabilities = registerCapabilities ex_levels ex_registry, handlers = [],
                    connected = False, sent = []\<rparr>"
  let ?srv1 = "?srv0\<lparr>handlers := schemasToBind (listCapabilities ex_registry)\<rparr>"
  have 1: "newStdioServerTransport sdk_connect_fails = None"
    "newServer sdk_connect_fails (mcp_name ex_registry) (version (opts ex_registry))
       (registerCapabilities ex_levels ex_registry) = None"
    by (simp_all add: sdk_connect_fails_def sdk_ok_def)
  have 2: "registerCoreHandlers sdk_connect_fails (ex_registry\<lparr>server := Some ?srv0\<rparr>)
            = Inr (ex_registry\<lparr>server := Some ?srv1\<rparr>)"
    by (simp add: registerCoreHandlers_def sdk_connect_fails_def sdk_ok_def Let_def
        schemasToBind_def listCapabilities_def ex_registry_def bindHandler_def)
  have 3: "server (ex_registry\<lparr>server := Some ?srv1\<rparr>) = Some ?srv1"
    "connect sdk_connect_fails ?srv1 = Some (Error ''stdin closed'')"
    by (simp_all add: sdk_connect_fails_def)
  note a = serve_failure_is_fatal [of sdk_connect_fails ex_levels ex_registry _ _ _ "ex_registry\<lparr>server := Some ?srv1\<rparr>"
      ?srv1 "Error ''stdin closed''"]
  note b = serve_failure_is_fatal [of sdk_ok ex_levels ex_registry _ _ _ _ _ _ ex_serving]
  from a 1 2 3 have "serve sdk_connect_fails ex_levels ex_registry
     = Exited 1 [(''Error starting server'', Error ''stdin closed'')]"
    by blast
  moreover from b serve_ex_registry have "ex_serving = ex_registry\<lparr>server := Some \<lparr>srv_name = mcp_name ex_registry,
                  srv_version = version (opts ex_registry),
                  capabilities = registerCapabilities ex_levels ex_registry,
                  handlers = schemasToBind (listCapabilities ex_registry),
                  connected = True, sent = []\<rparr>\<rparr>"
    by blast
  ultimately show ?thesis using serve_ex_registry by simp
qed

text \<open>
  C6. When the lookup of a read-resource request throws an exception that is not a
  \<open>ResourceNotFoundError\<close>, the handler throws a \<open>ResourceError\<close> whose message is
  the message of that exception, and the request, its handler being bound, fails with
  that error.
\<close>

theorem read_resource_error_rewrapped:
  assumes "rm_get c (resourceManager st) uri = Inl e"
    and "\<not> instanceof_ResourceNotFoundError e"
  shows "readResourceHandler c st uri = Inl (ResourceError (message e))
         \<and> (server st = Some srv \<and> ReadResource \<in> set (handlers srv) \<longrightarrow>
              receive c (Serving st) (ReadResourceRequest uri)
                = Some (Inl (ResourceError (message e))))"
  using assms by (simp add: readResourceHandler_def receive_def)

theorem read_resource_error_rewrapped_witness:
  "readResourceHandler ex_collab ex_serving ''file://broken.log'' = Inl (ResourceError ''disk failure'')
   \<and> receive ex_collab (Serving ex_serving) (ReadResourceRequest ''file://broken.log'')
        = Some (Inl (ResourceError ''disk failure''))"
proof -
  have 1: "rm_get ex_collab (resourceManager ex_serving) ''file://broken.log''
            = Inl (ResourceError ''disk failure'')"
    by (simp add: ex_collab_def ex_get_def ex_serving_def ex_registry_def a_txt_def)
  have 2: "\<not> instanceof_ResourceNotFoundError (ResourceError ''disk failure'')"
    by simp
  have 3: "server ex_serving = Some ex_server \<and> ReadResource \<in> set (handlers ex_server)"
    by (simp add: ex_serving_def ex_server_def)
  from read_resource_error_rewrapped [OF 1 2, of ex_server] 3 show ?thesis by simp
qed

text \<open>
  C7. With \<open>ToolManager.call\<close> as the spec describes it, the call-tool handler succeeds
  exactly when the server is initialised, the tool is found, no required argument is
  missing and the tool's handler returns a value; the result then holds exactly one
  content item, of type \<open>text\<close>, whose text is that value coerced to text.
\<close>

theorem call_tool_result_single_text:
  assumes "tm_call c = ToolManager_call invoke toText"
  shows "(callToolHandler c st n args m = Inr r) =
     (\<exists>srv t v. server st = Some srv
        \<and> find (\<lambda>t. tool_name t = n) (toolManager st) = Some t
        \<and> find (\<lambda>i. required i \<and> in_name i \<notin> set (arg_keys args)) (inputs t) = None
        \<and> invoke (tool_fn t) args
             \<lparr>ctx_server = srv, ctx_resourceManager = resourceManager st, ctx_meta = m\<rparr> = Inr v
        \<and> r = \<lparr>content = [\<lparr>tc_type = ''text'', tc_text = toText v\<rparr>]\<rparr>)"
  using assms
  by (auto simp: callToolHandler_def createContext_def ToolManager_call_def
      split: option.splits sum.splits)

theorem call_tool_result_single_text_witness:
  "callToolHandler ex_collab ex_serving ''add''
      (Some (JObj [(''a'', JNum 1), (''b'', JNum 2)])) None
     = Inr \<lparr>content = [\<lparr>tc_type = ''text'', tc_text = ''3''\<rparr>]\<rparr>"
proof -
  have 1: "tm_call ex_collab = ToolManager_call ex_invoke ex_toText"
    by (simp add: ex_collab_def)
  have 2: "server ex_serving = Some ex_server
        \<and> find (\<lambda>t. tool_name t = ''add'') (toolManager ex_serving) = Some add_tool
        \<and> find (\<lambda>i. required i \<and> in_name i \<notin> set (arg_keys (Some (JObj [(''a'', JNum 1), (''b'', JNum 2)])))) (inputs add_tool) = None
        \<and> ex_invoke (tool_fn add_tool) (Some (JObj [(''a'', JNum 1), (''b'', JNum 2)]))
             \<lparr>ctx_server = ex_server, ctx_resourceManager = resourceManager ex_serving, ctx_meta = None\<rparr> = Inr (JNum 3)
        \<and> \<lparr>content = [\<lparr>tc_type = ''text'', tc_text = ''3''\<rparr>]\<rparr> = \<lparr>content = [\<lparr>tc_type = ''text'', tc_text = ex_toText (JNum 3)\<rparr>]\<rparr>"
    by (simp add: ex_serving_def ex_registry_def add_tool_def ex_invoke_def)
  show ?thesis
    unfolding call_tool_result_single_text [OF 1] using 2 by blast
qed

text \<open>
  C8. The \<open>Tool\<close> decorator attaches a tool configuration named after the method, with
  one input per declared parameter, in order and under the parameter's name; each input
  is required if and only if its parameter is not optional.
\<close>

theorem Tool_required_iff_not_optional:
  "\<exists>md tc. m_metadata (Tool config propertyKey parameters originalMethod) = Some md
     \<and> toolConfig md = Some tc
     \<and> tool_name tc = propertyKey
     \<and> length (inputs tc) = length parameters
     \<and> (\<forall>i<length parameters.
           in_name (inputs tc ! i) = p_name (parameters ! i)
           \<and> required (inputs tc ! i) = (\<not> p_optional (parameters ! i)))"
  by (simp add: Tool_def Let_def)

theorem Tool_required_iff_not_optional_witness:
  "map_option (\<lambda>md. map_option (\<lambda>tc. map required (inputs tc)) (toolConfig md))
     (m_metadata (Tool \<lparr>fc_description = None\<rparr> ''add'' add_params add_method))
   = Some (Some [True, False])"
proof -
  obtain md tc where
    1: "m_metadata (Tool \<lparr>fc_description = None\<rparr> ''add'' add_params add_method) = Some md"
    and 2: "toolConfig md = Some tc"
    and 3: "length (inputs tc) = length add_params"
    and 4: "\<forall>i<length add_params.
           in_name (inputs tc ! i) = p_name (add_params ! i)
           \<and> required (inputs tc ! i) = (\<not> p_optional (add_params ! i))"
    using Tool_required_iff_not_optional [of "\<lparr>fc_description = None\<rparr>" "''add''" add_params add_method] by blast
  from 3 have len: "length (inputs tc) = 2" by (simp add: add_params_def)
  from 4 have "required (inputs tc ! 0) = True" "required (inputs tc ! 1) = False"
    by (simp_all add: add_params_def)
  with len have "map required (inputs tc) = [True, False]"
    by (auto simp: list_eq_iff_nth_eq less_Suc_eq numeral_2_eq_2)
  with 1 2 show ?thesis by simp
qed

text \<open>
  C9. Whatever the registries hold, the computed capability set has the logging flag
  with the fixed levels, and so has the server of every served session.
\<close>

theorem logging_always_advertised:
  "cap_logging (registerCapabilities LOG_LEVELS st) = Some LOG_LEVELS
   \<and> (serve k LOG_LEVELS st = Serving st' \<longrightarrow>
        map_option (\<lambda>srv. cap_logging (capabilities srv)) (server st') = Some (Some LOG_LEVELS))"
  by (auto simp: registerCapabilities_fields dest!: serve_Serving)

theorem logging_always_advertised_witness:
  "serve sdk_ok ex_levels ex_registry = Serving ex_serving
   \<and> cap_logging (registerCapabilities ex_levels ex_registry) = Some ex_levels
   \<and> map_option (\<lambda>srv. cap_logging (capabilities srv)) (server ex_serving)
        = Some (Some ex_levels)"
  using logging_always_advertised [of ex_levels ex_registry sdk_ok ex_serving] serve_ex_registry by simp

text \<open>
  C10, as amended. When the constructor of \<open>EasyMCP\<close> returns, it has run the
  registrations to the end, on an instance with no server yet, and then called
  \<open>serve\<close>: the class-level roots come first in the roots registry, and every
  configuration of every child method is in its registry, a child method being a function
  among the own properties of the prototype whose name is not a property name of
  \<open>Object.prototype\<close>. The instance the constructor returns has its server, created with
  the capabilities computed from exactly these registries, with the handlers bound and
  not yet connected; a registration made afterwards leaves that server, and with it the
  advertised capabilities, unchanged, also when it comes before \<open>serve\<close> resumes; and
  the suspended \<open>serve\<close> of the constructor is what connects, so that the whole is one
  run of \<open>serve\<close> on the registries of the constructor.
\<close>

theorem constructor_registers_child_methods_before_serve:
  assumes "EasyMCP k L pol cls ver desc = Inr out"
  shows "\<exists>st. registerDecorated pol cls ver desc = Inr st \<and> out = serve_start k L st
      \<and> serve_finish k out = serve k L st
      \<and> server st = None
      \<and> (\<exists>rs. rootsManager st = (case rootConfigs cls of None \<Rightarrow> [] | Some cs \<Rightarrow> cs) @ rs)
      \<and> (\<forall>q \<in> set (childMethods cls). \<exists>m md.
             snd q = Function m \<and> m_metadata m = Some md
             \<and> (\<forall>c. toolConfig md = Some c \<longrightarrow>
                    tool_name c \<in> set (map tool_name (toolManager st)))
             \<and> (\<forall>c. promptConfig md = Some c \<longrightarrow>
                    prompt_name c \<in> set (map prompt_name (promptManager st)))
             \<and> (\<forall>r. rootConfig md = Some r \<longrightarrow> r \<in> set (rootsManager st))
             \<and> (\<forall>c. resourceConfig md = Some c \<longrightarrow>
                    c \<in> set (resources (resourceManager st)))
             \<and> (\<forall>c. resourceTemplateConfig md = Some c \<longrightarrow>
                    c \<in> set (templates (resourceManager st))))
      \<and> (\<forall>st1 r. out = Awaiting st1 r \<longrightarrow>
             (\<exists>srv. server st1 = Some srv \<and> \<not> connected srv
                \<and> capabilities srv = registerCapabilities L st
                \<and> (r = None \<longrightarrow> handlers srv = schemasToBind (listCapabilities st)))
             \<and> toolManager st1 = toolManager st \<and> promptManager st1 = promptManager st
             \<and> rootsManager st1 = rootsManager st \<and> resourceManager st1 = resourceManager st
             \<and> (\<forall>tc s. tool pol tc st1 = Inr s \<longrightarrow> server s = server st1)
             \<and> (\<forall>pc s. prompt pol pc st1 = Inr s \<longrightarrow> server s = server st1)
             \<and> (\<forall>r s. root r st1 = Inr s \<longrightarrow> server s = server st1)
             \<and> (\<forall>rc s. resource rc st1 = Inr s \<longrightarrow> server s = server st1)
             \<and> (\<forall>tp s. template tp st1 = Inr s \<longrightarrow> server s = server st1)
             \<and> (\<forall>st2 s. server st2 = server st1 \<and> serve_resume k st2 r = Serving s \<longrightarrow>
                   (\<exists>srv. server s = Some srv \<and> connected srv
                      \<and> capabilities srv = registerCapabilities L st
                      \<and> handlers srv = schemasToBind (listCapabilities st))))"
proof -
  from assms obtain st where st: "registerDecorated pol cls ver desc = Inr st"
    and out: "out = serve_start k L st"
    by (auto simp: EasyMCP_def split: sum.splits)
  note reg = registerDecorated_Inr [OF st]
  have fin: "serve_finish k out = serve k L st"
    unfolding out by (rule serve_split [symmetric])
  have methods: "\<forall>q \<in> set (childMethods cls). \<exists>m md.
             snd q = Function m \<and> m_metadata m = Some md
             \<and> (\<forall>c. toolConfig md = Some c \<longrightarrow>
                    tool_name c \<in> set (map tool_name (toolManager st)))
             \<and> (\<forall>c. promptConfig md = Some c \<longrightarrow>
                    prompt_name c \<in> set (map prompt_name (promptManager st)))
             \<and> (\<forall>r. rootConfig md = Some r \<longrightarrow> r \<in> set (rootsManager st))
             \<and> (\<forall>c. resourceConfig md = Some c \<longrightarrow>
                    c \<in> set (resources (resourceManager st)))
             \<and> (\<forall>c. resourceTemplateConfig md = Some c \<longrightarrow>
                    c \<in> set (templates (resourceManager st)))"
    using reg(3) unfolding registered_def .
  have inst: "(\<exists>srv. server st1 = Some srv \<and> \<not> connected srv
                \<and> capabilities srv = registerCapabilities L st
                \<and> (r = None \<longrightarrow> handlers srv = schemasToBind (listCapabilities st)))
             \<and> toolManager st1 = toolManager st \<and> promptManager st1 = promptManager st
             \<and> rootsManager st1 = rootsManager st \<and> resourceManager st1 = resourceManager st"
    if "out = Awaiting st1 r" for st1 r
  proof -
    from that out have "serve_start k L st = Awaiting st1 r" by simp
    from serve_start_Awaiting [OF this] obtain hs where
      st1: "st1 = st\<lparr>server := Some \<lparr>srv_name = mcp_name st, srv_version = version (opts st),
                  capabilities = registerCapabilities L st, handlers = hs,
                  connected = False, sent = []\<rparr>\<rparr>"
      and hs: "r = None \<longrightarrow> hs = schemasToBind (listCapabilities st)"
      by blast
    from hs show ?thesis unfolding st1 by simp
  qed
  have keep: "(\<forall>tc s. tool pol tc st1 = Inr s \<longrightarrow> server s = server st1)
             \<and> (\<forall>pc s. prompt pol pc st1 = Inr s \<longrightarrow> server s = server st1)
             \<and> (\<forall>r s. root r st1 = Inr s \<longrightarrow> server s = server st1)
             \<and> (\<forall>rc s. resource rc st1 = Inr s \<longrightarrow> server s = server st1)
             \<and> (\<forall>tp s. template tp st1 = Inr s \<longrightarrow> server s = server st1)" for st1
    by (intro conjI allI impI) (erule registration_keeps_server)+
  have resumed: "\<forall>st2 s. server st2 = server st1 \<and> serve_resume k st2 r = Serving s \<longrightarrow>
                   (\<exists>srv. server s = Some srv \<and> connected srv
                      \<and> capabilities srv = registerCapabilities L st
                      \<and> handlers srv = schemasToBind (listCapabilities st))"
    if a: "out = Awaiting st1 r" for st1 r
  proof (intro allI impI, elim conjE)
    fix st2 s
    assume b: "server st2 = server st1" and c: "serve_resume k st2 r = Serving s"
    from serve_resume_Serving [OF c] obtain srv where r: "r = None"
      and srv: "server st2 = Some srv" and s: "s = st2\<lparr>server := Some (srv\<lparr>connected := True\<rparr>)\<rparr>"
      by blast
    from inst [OF a] obtain srv1 where srv1: "server st1 = Some srv1"
      and caps: "capabilities srv1 = registerCapabilities L st"
      and hs: "r = None \<longrightarrow> handlers srv1 = schemasToBind (listCapabilities st)"
      by blast
    from b srv srv1 have "srv = srv1" by simp
    with caps hs r have "capabilities srv = registerCapabilities L st"
      and "handlers srv = schemasToBind (listCapabilities st)"
      by simp_all
    then show "\<exists>srv. server s = Some srv \<and> connected srv
                      \<and> capabilities srv = registerCapabilities L st
                      \<and> handlers srv = schemasToBind (listCapabilities st)"
      unfolding s by simp
  qed
  have last: "\<forall>st1 r. out = Awaiting st1 r \<longrightarrow>
             (\<exists>srv. server st1 = Some srv \<and> \<not> connected srv
                \<and> capabilities srv = registerCapabilities L st
                \<and> (r = None \<longrightarrow> handlers srv = schemasToBind (listCapabilities st)))
             \<and> toolManager st1 = toolManager st \<and> promptManager st1 = promptManager st
             \<and> rootsManager st1 = rootsManager st \<and> resourceManager st1 = resourceManager st
             \<and> (\<forall>tc s. tool pol tc st1 = Inr s \<longrightarrow> server s = server st1)
             \<and> (\<forall>pc s. prompt pol pc st1 = Inr s \<longrightarrow> server s = server st1)
             \<and> (\<forall>r s. root r st1 = Inr s \<longrightarrow> server s = server st1)
             \<and> (\<forall>rc s. resource rc st1 = Inr s \<longrightarrow> server s = server st1)
             \<and> (\<forall>tp s. template tp st1 = Inr s \<longrightarrow> server s = server st1)
             \<and> (\<forall>st2 s. server st2 = server st1 \<and> serve_resume k st2 r = Serving s \<longrightarrow>
                   (\<exists>srv. server s = Some srv \<and> connected srv
                      \<and> capabilities srv = registerCapabilities L st
                      \<and> handlers srv = schemasToBind (listCapabilities st)))"
  proof (intro allI impI)
    fix st1 r
    assume a: "out = Awaiting st1 r"
    from inst [OF a] keep [of st1] resumed [OF a]
    show "(\<exists>srv. server st1 = Some srv \<and> \<not> connected srv
                \<and> capabilities srv = registerCapabilities L st
                \<and> (r = None \<longrightarrow> handlers srv = schemasToBind (listCapabilities st)))
             \<and> toolManager st1 = toolManager st \<and> promptManager st1 = promptManager st
             \<and> rootsManager st1 = rootsManager st \<and> resourceManager st1 = resourceManager st
             \<and> (\<forall>tc s. tool pol tc st1 = Inr s \<longrightarrow> server s = server st1)
             \<and> (\<forall>pc s. prompt pol pc st1 = Inr s \<longrightarrow> server s = server st1)
             \<and> (\<forall>r s. root r st1 = Inr s \<longrightarrow> server s = server st1)
             \<and> (\<forall>rc s. resource rc st1 = Inr s \<longrightarrow> server s = server st1)
             \<and> (\<forall>tp s. template tp st1 = Inr s \<longrightarrow> server s = server st1)
             \<and> (\<forall>st2 s. server st2 = server st1 \<and> serve_resume k st2 r = Serving s \<longrightarrow>
                   (\<exists>srv. server s = Some srv \<and> connected srv
                      \<and> capabilities srv = registerCapabilities L st
                      \<and> handlers srv = schemasToBind (listCapabilities st)))"
      by (elim conjE) (intro conjI, assumption+)
  qed
  from st out fin reg(1) reg(2) methods last show ?thesis
    by (intro exI [of _ st] conjI) assumption+
qed

text \<open>
  The claim as stated, that all decorator-derived registrations are performed, fails for
  a decorated method whose name is a property name of \<open>Object.prototype\<close>: the filter of
  the constructor drops it. A class whose one method \<open>toString\<close> carries a tool
  configuration is constructed with no tool registered and without the tools capability.
\<close>

theorem decorated_toString_not_registered:
  "map_option toolConfig
      (m_metadata (Tool \<lparr>fc_description = Some ''renders the value''\<rparr> ''toString'' []
                     add_method))
     = Some (Some \<lparr>tool_name = ''toString'', tool_description = ''renders the value'',
                   inputs = [], tool_fn = ()\<rparr>)
   \<and> EasyMCP sdk_ok ex_levels Reject stringer ''1.0.0'' None
       = Inr (Awaiting stringer_instance None)
   \<and> toolManager stringer_instance = []
   \<and> map_option capabilities (server stringer_instance)
       = Some \<lparr>cap_resources = None, cap_logging = Some ex_levels, cap_tools = None,
               cap_prompts = None, cap_roots = None\<rparr>"
  by (simp add: Tool_def add_method_def no_metadata_def Let_def EasyMCP_def
      registerDecorated_def stringer_def childMethods_def Object_prototype_names_def
      BaseMCP_def andThen_def serve_start_def sdk_ok_def registerCapabilities_def
      registerCoreHandlers_run_def schemasToBind_def listCapabilities_def ex_opts_def
      stringer_instance_def)

theorem constructor_registers_child_methods_before_serve_witness:
  "EasyMCP sdk_ok ex_levels Reject calculator ''1.0.0'' None
     = Inr (Awaiting calculator_instance None)
   \<and> (\<exists>st. registerDecorated Reject calculator ''1.0.0'' None = Inr st
          \<and> server st = None
          \<and> serve_finish sdk_ok (Awaiting calculator_instance None) = serve sdk_ok ex_levels st
          \<and> capabilities (calculator_server\<lparr>connected := False\<rparr>)
               = registerCapabilities ex_levels st
          \<and> handlers (calculator_server\<lparr>connected := False\<rparr>)
               = schemasToBind (listCapabilities st))
   \<and> serve_finish sdk_ok (Awaiting calculator_instance None)
       = Serving (calculator_registry\<lparr>server := Some calculator_server\<rparr>)"
proof -
  have e: "EasyMCP sdk_ok ex_levels Reject calculator ''1.0.0'' None
     = Inr (Awaiting calculator_instance None)"
    by (simp add: EasyMCP_def registerDecorated_calculator serve_start_calculator)
  from constructor_registers_child_methods_before_serve [OF e] obtain st where
    a: "registerDecorated Reject calculator ''1.0.0'' None = Inr st"
    and b: "serve_finish sdk_ok (Awaiting calculator_instance None) = serve sdk_ok ex_levels st"
    and c: "server st = None"
    and d: "\<forall>st1 r. Awaiting calculator_instance None = Awaiting st1 r \<longrightarrow>
             (\<exists>srv. server st1 = Some srv \<and> \<not> connected srv
                \<and> capabilities srv = registerCapabilities ex_levels st
                \<and> (r = None \<longrightarrow> handlers srv = schemasToBind (listCapabilities st)))
             \<and> toolManager st1 = toolManager st \<and> promptManager st1 = promptManager st
             \<and> rootsManager st1 = rootsManager st \<and> resourceManager st1 = resourceManager st
             \<and> (\<forall>tc s. tool Reject tc st1 = Inr s \<longrightarrow> server s = server st1)
             \<and> (\<forall>pc s. prompt Reject pc st1 = Inr s \<longrightarrow> server s = server st1)
             \<and> (\<forall>r s. root r st1 = Inr s \<longrightarrow> server s = server st1)
             \<and> (\<forall>rc s. resource rc st1 = Inr s \<longrightarrow> server s = server st1)
             \<and> (\<forall>tp s. template tp st1 = Inr s \<longrightarrow> server s = server st1)
             \<and> (\<forall>st2 s. server st2 = server st1 \<and> serve_resume sdk_ok st2 r = Serving s \<longrightarrow>
                   (\<exists>srv. server s = Some srv \<and> connected srv
                      \<and> capabilities srv = registerCapabilities ex_levels st
                      \<and> handlers srv = schemasToBind (listCapabilities st)))"
    by (elim exE conjE) (rule that; assumption)
  note inst = d [THEN spec, THEN spec, THEN mp, OF refl, THEN conjunct1]
  then obtain srv where srv: "server calculator_instance = Some srv"
    and caps: "capabilities srv = registerCapabilities ex_levels st"
    and hs: "handlers srv = schemasToBind (listCapabilities st)"
    by (elim exE conjE) (rule that; simp)
  from srv have "srv = calculator_server\<lparr>connected := False\<rparr>"
    by (simp add: calculator_instance_def)
  with caps hs have "capabilities (calculator_server\<lparr>connected := False\<rparr>)
               = registerCapabilities ex_levels st"
    and "handlers (calculator_server\<lparr>connected := False\<rparr>)
               = schemasToBind (listCapabilities st)"
    by simp_all
  moreover from a have "st = calculator_registry"
    by (simp add: registerDecorated_calculator)
  with b have "serve_finish sdk_ok (Awaiting calculator_instance None)
       = Serving (calculator_registry\<lparr>server := Some calculator_server\<rparr>)"
    by (simp add: serve_calculator)
  ultimately show ?thesis
    using a b c e by (intro conjI exI [of _ st]) assumption+
qed

end
